theory Spec2Isabelle
  imports Main "HOL-Library.Word"
begin

section \<open>The browser client (frontend/src)\<close>

subsection \<open>Strings and numbers of the client\<close>

text \<open>
  A string of the client is a sequence of 16-bit code units. \<open>js\<close> embeds an ASCII
  literal; glyphs outside ASCII are written as their code units.
  \<open>trim\<close> is \<^verbatim>\<open>String.prototype.trim\<close>: it strips white space and line terminators
  (TAB, LF, VT, FF, CR, SP, NBSP, the Unicode space separators, LS, PS, BOM) at both ends.
\<close>

type_synonym jsstring = "16 word list"

definition js :: "string \<Rightarrow> jsstring" where
  "js s = map of_char s"

definition isWhiteSpace :: "16 word \<Rightarrow> bool" where
  "isWhiteSpace c \<longleftrightarrow>
     c = 0x0009 \<or> c = 0x000A \<or> c = 0x000B \<or> c = 0x000C \<or> c = 0x000D \<or>
     c = 0x0020 \<or> c = 0x00A0 \<or> c = 0x1680 \<or> (0x2000 \<le> c \<and> c \<le> 0x200A) \<or>
     c = 0x2028 \<or> c = 0x2029 \<or> c = 0x202F \<or> c = 0x205F \<or> c = 0x3000 \<or>
     c = 0xFEFF"

definition trim :: "jsstring \<Rightarrow> jsstring" where
  "trim s = rev (dropWhile isWhiteSpace (rev (dropWhile isWhiteSpace s)))"

fun digits :: "nat \<Rightarrow> jsstring" where
  "digits n =
     (if n < 10 then [of_nat (48 + n)]
      else digits (n div 10) @ [of_nat (48 + n mod 10)])"

text \<open>The text React renders for a number that holds an integer.\<close>

definition toString :: "int \<Rightarrow> jsstring" where
  "toString i = (if i < 0 then js ''-'' @ digits (nat (- i)) else digits (nat i))"

subsection \<open>types.ts\<close>

record OptimizationSuggestion =
  type_sg :: jsstring
  severity :: jsstring
  title :: jsstring
  description :: jsstring
  suggestion :: jsstring
  example :: "jsstring option"

text \<open>
  \<open>complexity_score\<close> is a \<^verbatim>\<open>number\<close> that carries the engine's integer score;
  \<open>syntax_errors\<close> is the optional field.
\<close>

record AnalysisResult =
  query :: jsstring
  database_type :: jsstring
  suggestions :: "OptimizationSuggestion list"
  complexity_score :: int
  execution_plan_tips :: "jsstring list"
  syntax_errors :: "jsstring list option"

record SQLQuery =
  query_req :: jsstring
  database_type_req :: jsstring

record DatabaseOption =
  value_db :: jsstring
  label :: jsstring
  description_db :: jsstring
  icon :: jsstring

definition DATABASE_OPTIONS :: "DatabaseOption list" where
  "DATABASE_OPTIONS =
     [\<lparr>value_db = js ''mysql'', label = js ''MySQL'',
       description_db = js ''Open-source relational database'', icon = [0xD83D, 0xDC2C]\<rparr>,
      \<lparr>value_db = js ''postgresql'', label = js ''PostgreSQL'',
       description_db = js ''Advanced open-source database'', icon = [0xD83D, 0xDC18]\<rparr>,
      \<lparr>value_db = js ''oracle'', label = js ''Oracle'',
       description_db = js ''Enterprise database system'', icon = [0xD83D, 0xDD34]\<rparr>,
      \<lparr>value_db = js ''sqlserver'', label = js ''SQL Server'',
       description_db = js ''Microsoft database system'', icon = [0xD83D, 0xDFE6]\<rparr>]"

subsection \<open>components/OptimizationResults.tsx\<close>

text \<open>
  What a component returns: an element with its tag, its \<^verbatim>\<open>className\<close> and its
  children, a text child, or the syntax highlighter with the code it shows. Event
  handlers, keys and inline styles are left out. A JSX expression that is
  \<^verbatim>\<open>false\<close>, \<^verbatim>\<open>undefined\<close> or \<^verbatim>\<open>null\<close> renders no child, so
  every piece below is a list of children. The state of the component, the set
  \<open>expandedSuggestions\<close> of the indices of the expanded cards, is an argument.
\<close>

datatype view =
  Element string jsstring "view list"
  | Text jsstring
  | SyntaxHighlighter jsstring

fun classNames :: "view \<Rightarrow> jsstring list" where
  "classNames (Element t c ks) = c # concat (map classNames ks)"
| "classNames (Text s) = []"
| "classNames (SyntaxHighlighter s) = []"

fun texts :: "view \<Rightarrow> jsstring list" where
  "texts (Element t c ks) = concat (map texts ks)"
| "texts (Text s) = [s]"
| "texts (SyntaxHighlighter s) = [s]"

definition startsWith :: "jsstring \<Rightarrow> jsstring \<Rightarrow> bool" where
  "startsWith s p \<longleftrightarrow> take (length p) s = p"

definition toggleSuggestion :: "nat set \<Rightarrow> nat \<Rightarrow> nat set" where
  "toggleSuggestion expandedSuggestions index =
     (if index \<in> expandedSuggestions then expandedSuggestions - {index}
      else insert index expandedSuggestions)"

definition getSeverityIcon :: "jsstring \<Rightarrow> jsstring" where
  "getSeverityIcon sev =
     (if sev = js ''high'' then [0xD83D, 0xDD34]
      else if sev = js ''medium'' then [0xD83D, 0xDFE1]
      else if sev = js ''low'' then [0xD83D, 0xDFE2]
      else [0xD83D, 0xDD35])"

definition getSeverityClass :: "jsstring \<Rightarrow> jsstring" where
  "getSeverityClass sev = js ''severity-'' @ sev"

record complexity =
  level :: jsstring
  color :: jsstring

definition getComplexityLevel :: "int \<Rightarrow> complexity" where
  "getComplexityLevel score =
     (if score \<le> 20 then \<lparr>level = js ''Simple'', color = js ''green''\<rparr>
      else if score \<le> 40 then \<lparr>level = js ''Moderate'', color = js ''orange''\<rparr>
      else if score \<le> 70 then \<lparr>level = js ''Complex'', color = js ''red''\<rparr>
      else \<lparr>level = js ''Very Complex'', color = js ''darkred''\<rparr>)"

definition selectedDatabase :: "AnalysisResult \<Rightarrow> DatabaseOption option" where
  "selectedDatabase result =
     find (\<lambda>db. value_db db = database_type result) DATABASE_OPTIONS"

text \<open>A child \<^verbatim>\<open>{selectedDatabase?.label}\<close>: nothing when the option is undefined.\<close>

definition optional :: "jsstring option \<Rightarrow> view list" where
  "optional t = (case t of None \<Rightarrow> [] | Some s \<Rightarrow> [Text s])"

text \<open>
  The guard \<^verbatim>\<open>result.syntax_errors && result.syntax_errors.length > 0\<close>, with the
  errors it lets through.
\<close>

definition shownErrors :: "AnalysisResult \<Rightarrow> jsstring list option" where
  "shownErrors result =
     (case syntax_errors result of
        None \<Rightarrow> None
      | Some es \<Rightarrow> if 0 < length es then Some es else None)"

definition resultsHeader :: "AnalysisResult \<Rightarrow> view" where
  "resultsHeader result =
     (let complexity = getComplexityLevel (complexity_score result);
          selected = selectedDatabase result
      in Element ''div'' (js ''results-header'')
           [Element ''h2'' [] [Text ([0xD83D, 0xDCCA] @ js '' Analysis Results'')],
            Element ''div'' (js ''query-summary'')
              [Element ''div'' (js ''database-badge'')
                 [Element ''span'' (js ''database-icon'') (optional (map_option icon selected)),
                  Element ''span'' (js ''database-name'') (optional (map_option label selected))],
               Element ''div'' (js ''complexity-badge'')
                 [Element ''span'' (js ''complexity-label'') [Text (js ''Complexity:'')],
                  Element ''span'' (js ''complexity-value '' @ color complexity)
                    [Text (level complexity), Text (js '' (''),
                     Text (toString (complexity_score result)), Text (js ''/100)'')]]]])"

definition syntaxErrorItem :: "jsstring \<Rightarrow> view" where
  "syntaxErrorItem err =
     Element ''div'' (js ''syntax-error-item'')
       [Element ''span'' (js ''error-icon'') [Text [0xD83D, 0xDEA8]],
        Element ''span'' (js ''error-text'') [Text err]]"

definition syntaxErrorsSection :: "AnalysisResult \<Rightarrow> view list" where
  "syntaxErrorsSection result =
     (case shownErrors result of
        None \<Rightarrow> []
      | Some es \<Rightarrow>
          [Element ''div'' (js ''syntax-errors-section'')
             [Element ''h3'' [] [Text ([0x274C] @ js '' Syntax Errors'')],
              Element ''div'' (js ''syntax-errors-list'') (map syntaxErrorItem es),
              Element ''div'' (js ''syntax-error-notice'')
                [Element ''p'' []
                   [Text ([0x26A0, 0xFE0F] @
                      js '' Please fix the syntax errors above before proceeding with optimization analysis.'')]]]])"

definition analyzedQuerySection :: "AnalysisResult \<Rightarrow> view" where
  "analyzedQuerySection result =
     Element ''div'' (js ''analyzed-query-section'')
       [Element ''h3'' []
          ([Text ([0xD83D, 0xDD0D] @ js '' Analyzed Query ('')] @
           optional (map_option label (selectedDatabase result)) @ [Text (js '')'')]),
        Element ''div'' (js ''query-display'') [SyntaxHighlighter (query result)]]"

definition suggestionDetails :: "OptimizationSuggestion \<Rightarrow> view" where
  "suggestionDetails sg =
     Element ''div'' (js ''suggestion-details'')
       (Element ''div'' (js ''suggestion-recommendation'')
          [Element ''h5'' [] [Text ([0xD83D, 0xDCCB] @ js '' Recommendation:'')],
           Element ''p'' [] [Text (suggestion sg)]] #
        (case example sg of
           None \<Rightarrow> []
         | Some ex \<Rightarrow>
             if ex = [] then []
             else [Element ''div'' (js ''suggestion-example'')
                     [Element ''h5'' [] [Text ([0xD83D, 0xDCBB] @ js '' Example:'')],
                      SyntaxHighlighter ex]]))"

definition suggestionCard :: "nat set \<Rightarrow> nat \<times> OptimizationSuggestion \<Rightarrow> view" where
  "suggestionCard expandedSuggestions = (\<lambda>(index, sg).
     Element ''div'' (js ''suggestion-card '' @ getSeverityClass (severity sg))
       ([Element ''div'' (js ''suggestion-header'')
           [Element ''div'' (js ''suggestion-title'')
              [Element ''span'' (js ''severity-icon'') [Text (getSeverityIcon (severity sg))],
               Element ''span'' (js ''title-text'') [Text (title sg)],
               Element ''span'' (js ''suggestion-type'') [Text (type_sg sg)]],
            Element ''button'' (js ''expand-button'')
              [Text (if index \<in> expandedSuggestions then [0x25BC] else [0x25B6])]],
         Element ''div'' (js ''suggestion-description'') [Text (description sg)]] @
        (if index \<in> expandedSuggestions then [suggestionDetails sg] else [])))"

definition suggestionsSection :: "AnalysisResult \<Rightarrow> nat set \<Rightarrow> view" where
  "suggestionsSection result expandedSuggestions =
     Element ''div'' (js ''suggestions-section'')
       [Element ''h3'' [] [Text ([0xD83D, 0xDCA1] @ js '' Optimization Suggestions'')],
        (case shownErrors result of
           Some es \<Rightarrow>
             Element ''div'' (js ''syntax-error-blocking'')
               [Element ''div'' (js ''blocking-icon'') [Text [0x26A0, 0xFE0F]],
                Element ''h4'' [] [Text (js ''Optimization Analysis Blocked'')],
                Element ''p'' []
                  [Text (js (''Please fix the syntax errors above before optimization analysis can be performed. '' @
                             ''The tool cannot provide reliable optimization suggestions for queries with syntax issues.''))]]
         | None \<Rightarrow>
             if length (suggestions result) = 0 then
               Element ''div'' (js ''no-suggestions'')
                 [Element ''div'' (js ''success-icon'') [Text [0x2705]],
                  Element ''h4'' [] [Text (js ''Great job!'')],
                  Element ''p'' []
                    ([Text (js ''No optimization issues found in your '')] @
                     optional (map_option label (selectedDatabase result)) @
                     [Text (js '' query. Your SQL looks good!'')])]
             else
               Element ''div'' (js ''suggestions-list'')
                 (map (suggestionCard expandedSuggestions)
                    (enumerate 0 (suggestions result))))]"

definition tipItem :: "jsstring \<Rightarrow> view" where
  "tipItem tip =
     Element ''div'' (js ''tip-item'')
       [Element ''span'' (js ''tip-icon'') [Text [0xD83D, 0xDCA1]],
        Element ''span'' (js ''tip-text'') [Text tip]]"

definition executionTipsSection :: "AnalysisResult \<Rightarrow> view list" where
  "executionTipsSection result =
     (if 0 < length (execution_plan_tips result) then
        [Element ''div'' (js ''execution-tips-section'')
           [Element ''h3'' [] [Text ([0xD83C, 0xDFAF] @ js '' Execution Plan Tips'')],
            Element ''div'' (js ''tips-list'') (map tipItem (execution_plan_tips result))]]
      else [])"

definition statItem :: "jsstring \<Rightarrow> jsstring \<Rightarrow> jsstring \<Rightarrow> view" where
  "statItem lbl cls val =
     Element ''div'' (js ''stat-item'')
       [Element ''span'' (js ''stat-label'') [Text lbl], Element ''span'' cls [Text val]]"

definition countSeverity :: "jsstring \<Rightarrow> AnalysisResult \<Rightarrow> jsstring" where
  "countSeverity sev result =
     toString (int (length (filter (\<lambda>s. severity s = sev) (suggestions result))))"

definition summaryStats :: "AnalysisResult \<Rightarrow> view" where
  "summaryStats result =
     Element ''div'' (js ''summary-stats'')
       (case shownErrors result of
          Some es \<Rightarrow>
            [statItem (js ''Syntax Errors:'') (js ''stat-value error'') (toString (int (length es))),
             statItem (js ''Analysis Status:'') (js ''stat-value error'') (js ''Blocked''),
             statItem (js ''Action Required:'') (js ''stat-value error'') (js ''Fix Syntax'')]
        | None \<Rightarrow>
            [statItem (js ''Total Suggestions:'') (js ''stat-value'')
               (toString (int (length (suggestions result)))),
             statItem (js ''High Priority:'') (js ''stat-value high'')
               (countSeverity (js ''high'') result),
             statItem (js ''Medium Priority:'') (js ''stat-value medium'')
               (countSeverity (js ''medium'') result),
             statItem (js ''Low Priority:'') (js ''stat-value low'')
               (countSeverity (js ''low'') result)])"

definition OptimizationResults :: "AnalysisResult \<Rightarrow> nat set \<Rightarrow> view" where
  "OptimizationResults result expandedSuggestions =
     Element ''div'' (js ''optimization-results'')
       ([resultsHeader result] @
        syntaxErrorsSection result @
        [analyzedQuerySection result,
         suggestionsSection result expandedSuggestions] @
        executionTipsSection result @
        [summaryStats result])"

subsection \<open>App.tsx: the App and QueryInput components\<close>

text \<open>
  A value that reaches the client in a response: what \<^verbatim>\<open>JSON.parse\<close> yields, or
  \<^verbatim>\<open>undefined\<close> for a property that is not there. A number is kept as the two
  things this code can observe of it: whether it is falsy (zero or NaN), and the text
  that React shows for it.
\<close>

datatype jsvalue =
  JUndefined
  | JNull
  | JBoolean bool
  | JNumber bool jsstring
  | JString jsstring
  | JArray "jsvalue list"
  | JObject "(jsstring \<times> jsvalue) list"

fun truthy :: "jsvalue \<Rightarrow> bool" where
  "truthy JUndefined = False"
| "truthy JNull = False"
| "truthy (JBoolean b) = b"
| "truthy (JNumber falsy shown) = (\<not> falsy)"
| "truthy (JString s) = (s \<noteq> [])"
| "truthy (JArray vs) = True"
| "truthy (JObject props) = True"

text \<open>
  A value as a child of an element. React shows nothing for \<^verbatim>\<open>undefined\<close>,
  \<^verbatim>\<open>null\<close>, a boolean and the empty string, the text of a string or a number, the
  children of an array one after the other, and throws on a plain object ("Objects are
  not valid as a React child").
\<close>

datatype ReactError = ObjectsAreNotValidAsAReactChild

fun collect :: "(ReactError + view list) list \<Rightarrow> ReactError + view list" where
  "collect [] = Inr []"
| "collect (Inl e # rs) = Inl e"
| "collect (Inr ks # rs) = (case collect rs of Inl e \<Rightarrow> Inl e | Inr more_ks \<Rightarrow> Inr (ks @ more_ks))"

fun reactChild :: "jsvalue \<Rightarrow> ReactError + view list" where
  "reactChild JUndefined = Inr []"
| "reactChild JNull = Inr []"
| "reactChild (JBoolean b) = Inr []"
| "reactChild (JNumber falsy shown) = Inr [Text shown]"
| "reactChild (JString s) = Inr (if s = [] then [] else [Text s])"
| "reactChild (JArray vs) = collect (map reactChild vs)"
| "reactChild (JObject props) = Inl ObjectsAreNotValidAsAReactChild"

text \<open>
  The state of the page: the \<^verbatim>\<open>useState\<close> cells of QueryInput (\<open>query\<close>,
  \<open>databaseType\<close>, \<open>error\<close>) and of App (\<open>analysisResult\<close>, \<open>isLoading\<close>), and
  the requests that \<^verbatim>\<open>axios.post\<close> has sent so far, each with its URL and body.
  The cell \<open>error\<close> is declared \<^verbatim>\<open>string | null\<close>, but \<open>handleSubmit\<close> stores in
  it whatever the response carries as its detail, so it holds any value.
\<close>

record page =
  query_st :: jsstring
  databaseType :: jsstring
  error :: jsvalue
  analysisResult :: "AnalysisResult option"
  isLoading :: bool
  posted :: "(jsstring \<times> SQLQuery) list"

text \<open>
  How a request ends: the promise resolves with \<^verbatim>\<open>response.data\<close>, or it rejects
  with an error \<^verbatim>\<open>err\<close> (typed \<^verbatim>\<open>any\<close>) whose
  \<^verbatim>\<open>err.response?.data?.detail\<close> is the given value: \<open>JUndefined\<close> when there is no
  response or no detail in it, and any value of the response body otherwise.
\<close>

datatype outcome = Resolved AnalysisResult | Rejected jsvalue

definition handleAnalysisComplete :: "AnalysisResult \<Rightarrow> page \<Rightarrow> page" where
  "handleAnalysisComplete result s = s\<lparr>analysisResult := Some result, isLoading := False\<rparr>"

definition handleAnalysisStart :: "page \<Rightarrow> page" where
  "handleAnalysisStart s = s\<lparr>isLoading := True, analysisResult := None\<rparr>"

text \<open>\<^verbatim>\<open>detail || 'Failed to analyze query'\<close>: the detail when it is truthy.\<close>

definition errorMessage :: "jsvalue \<Rightarrow> jsvalue" where
  "errorMessage detail =
     (if truthy detail then detail else JString (js ''Failed to analyze query''))"

text \<open>
  \<open>handleSubmit\<close>, with the server as a function from the request body to the outcome
  of the request. The call \<^verbatim>\<open>e.preventDefault()\<close> touches no state of the page and is
  left out. QueryInput receives \<open>handleAnalysisStart\<close> and
  \<open>handleAnalysisComplete\<close> as \<^verbatim>\<open>onAnalysisStart\<close> and \<^verbatim>\<open>onAnalysisComplete\<close>.
\<close>

definition handleSubmit :: "(SQLQuery \<Rightarrow> outcome) \<Rightarrow> page \<Rightarrow> page" where
  "handleSubmit server s =
     (if trim (query_st s) = [] then s\<lparr>error := JString (js ''Please enter a SQL query'')\<rparr>
      else
        let s1 = handleAnalysisStart (s\<lparr>error := JNull\<rparr>);
            body = \<lparr>query_req = trim (query_st s), database_type_req = databaseType s\<rparr>;
            s2 = s1\<lparr>posted := posted s1 @ [(js ''/analyze'', body)]\<rparr>
        in case server body of
             Resolved data \<Rightarrow> handleAnalysisComplete data s2
           | Rejected detail \<Rightarrow>
               handleAnalysisComplete
                 \<lparr>query = trim (query_st s), database_type = databaseType s,
                  suggestions = [], complexity_score = 0, execution_plan_tips = [],
                  syntax_errors = None\<rparr>
                 (s2\<lparr>error := errorMessage detail\<rparr>))"

text \<open>
  The banner of the form (App.tsx 220-224, and the same lines of the earlier version):
  \<^verbatim>\<open>{error && (<div className="error-message">(warning sign) {error}</div>)}\<close>.
  A falsy \<open>error\<close> is itself the child.
\<close>

definition errorBanner :: "jsvalue \<Rightarrow> ReactError + view list" where
  "errorBanner err =
     (if truthy err then
        (case reactChild err of
           Inl e \<Rightarrow> Inl e
         | Inr shown \<Rightarrow>
             Inr [Element ''div'' (js ''error-message'') (Text [0x26A0, 0xFE0F, 0x0020] # shown)])
      else reactChild err)"

text \<open>
  The parts of App's output below the query form:
  \<^verbatim>\<open>{isLoading && (<div className="loading-container">...</div>)}\<close> and
  \<^verbatim>\<open>{analysisResult && !isLoading && (<OptimizationResults result={analysisResult} />)}\<close>.
\<close>

definition loadingContainer :: "page \<Rightarrow> view list" where
  "loadingContainer s =
     (if isLoading s then
        [Element ''div'' (js ''loading-container'')
           [Element ''div'' (js ''loading-spinner'') [],
            Element ''p'' [] [Text (js ''Analyzing your query...'')]]]
      else [])"

definition resultsPane :: "page \<Rightarrow> nat set \<Rightarrow> view list" where
  "resultsPane s expandedSuggestions =
     (case analysisResult s of
        None \<Rightarrow> []
      | Some result \<Rightarrow>
          if \<not> isLoading s then [OptimizationResults result expandedSuggestions] else [])"

text \<open>
  What the page shows of an outcome: the banner of the form, the loading container and
  the results pane, in document order. The other elements of the form show the query
  text, the selected database and \<open>isLoading\<close> only. App has no error boundary, so
  when rendering the banner throws, React unmounts the page and nothing is shown.
\<close>

definition pageView :: "page \<Rightarrow> nat set \<Rightarrow> ReactError + view list" where
  "pageView s expandedSuggestions =
     (case errorBanner (error s) of
        Inl e \<Rightarrow> Inl e
      | Inr banner \<Rightarrow> Inr (banner @ loadingContainer s @ resultsPane s expandedSuggestions))"

subsection \<open>The earlier QueryInput component and its types\<close>

text \<open>
  The repository also holds the version of QueryInput and of \<^verbatim>\<open>types.ts\<close> from
  before the database selector: a result has no \<^verbatim>\<open>database_type\<close> and no
  \<^verbatim>\<open>syntax_errors\<close>, and the request body is the query alone. Its names carry the
  suffix \<open>_v1\<close>.
\<close>

record AnalysisResult_v1 =
  query_v1 :: jsstring
  suggestions_v1 :: "OptimizationSuggestion list"
  complexity_score_v1 :: int
  execution_plan_tips_v1 :: "jsstring list"

record SQLQuery_v1 =
  query_req_v1 :: jsstring

record page_v1 =
  query_st_v1 :: jsstring
  error_v1 :: jsvalue
  analysisResult_v1 :: "AnalysisResult_v1 option"
  isLoading_v1 :: bool
  posted_v1 :: "(jsstring \<times> SQLQuery_v1) list"

datatype outcome_v1 = Resolved_v1 AnalysisResult_v1 | Rejected_v1 jsvalue

definition handleAnalysisComplete_v1 :: "AnalysisResult_v1 \<Rightarrow> page_v1 \<Rightarrow> page_v1" where
  "handleAnalysisComplete_v1 result s =
     s\<lparr>analysisResult_v1 := Some result, isLoading_v1 := False\<rparr>"

definition handleAnalysisStart_v1 :: "page_v1 \<Rightarrow> page_v1" where
  "handleAnalysisStart_v1 s = s\<lparr>isLoading_v1 := True, analysisResult_v1 := None\<rparr>"

definition handleSubmit_v1 :: "(SQLQuery_v1 \<Rightarrow> outcome_v1) \<Rightarrow> page_v1 \<Rightarrow> page_v1" where
  "handleSubmit_v1 server s =
     (if trim (query_st_v1 s) = [] then
        s\<lparr>error_v1 := JString (js ''Please enter a SQL query'')\<rparr>
      else
        let s1 = handleAnalysisStart_v1 (s\<lparr>error_v1 := JNull\<rparr>);
            body = \<lparr>query_req_v1 = trim (query_st_v1 s)\<rparr>;
            s2 = s1\<lparr>posted_v1 := posted_v1 s1 @ [(js ''/analyze'', body)]\<rparr>
        in case server body of
             Resolved_v1 data \<Rightarrow> handleAnalysisComplete_v1 data s2
           | Rejected_v1 detail \<Rightarrow>
               handleAnalysisComplete_v1
                 \<lparr>query_v1 = trim (query_st_v1 s), suggestions_v1 = [],
                  complexity_score_v1 = 0, execution_plan_tips_v1 = []\<rparr>
                 (s2\<lparr>error_v1 := errorMessage detail\<rparr>))"

section \<open>The analysis engine\<close>

text \<open>
  The engine that answers \<^verbatim>\<open>POST /analyze\<close> (the repository's
  \<^verbatim>\<open>backend/app.py\<close>) is not among the source files; only its callers and its
  documentation are. Every definition of this section is therefore written from the
  specification, sections 3 and 4, and says so.
\<close>

subsection \<open>Data model\<close>

text \<open>Modelled from the spec: the category tag of a Suggestion (section 3); the engine's
  source is missing.\<close>

datatype category = Performance | Index | Join | Structure

text \<open>Modelled from the spec: the severity of a Suggestion, High above Medium above Low
  (section 3); the engine's source is missing.\<close>

datatype Severity = High | Medium | Low

text \<open>Modelled from the spec: the Suggestion value object (section 3); the engine's source
  is missing.\<close>

record Suggestion =
  Category :: category
  Severity :: Severity
  Title :: string
  Description :: string
  Recommendation :: string
  Example :: "string option"

text \<open>Modelled from the spec: the dialect families of the glossary, with the fall-back for
  a tag that is not recognized (sections 3 and 4.4); the engine's source is missing. The
  tags are the ones the client sends (\<open>DATABASE_OPTIONS\<close>).\<close>

datatype dialect = MySQL | PostgreSQL | Oracle | SQLServer | Generic

text \<open>Modelled from the spec: the dialect of a tag, with Generic as the default for a tag that
  is not recognized (sections 3 and 4.4); the orchestrator's source is missing.\<close>

definition dialect_of :: "string \<Rightarrow> dialect" where
  "dialect_of tag =
     (if tag = ''mysql'' then MySQL
      else if tag = ''postgresql'' then PostgreSQL
      else if tag = ''oracle'' then Oracle
      else if tag = ''sqlserver'' then SQLServer
      else Generic)"

text \<open>Modelled from the spec: the AnalysisResult of section 3 (query text, dialect,
  suggestions in rule order, score, tips, optional syntax errors); the engine's source
  is missing.\<close>

record AnalysisResult_engine =
  QueryText :: string
  DialectTag :: string
  Suggestions :: "Suggestion list"
  ComplexityScore :: int
  Tips :: "string list"
  SyntaxErrors :: "string list option"

subsection \<open>Tokenizer and statement builder\<close>

text \<open>Modelled from the spec: the flat token stream of section 2; the tokenizer's source is
  missing. A token is a word (keyword, name or number, in upper case), a quoted literal
  or a single symbol, and it carries the depth of parentheses it stands in.\<close>

datatype token = Word string | Quoted string | Symbol char

text \<open>Modelled from the spec: a token with the depth of parentheses it stands in (sections 4.1
  and 9); the tokenizer's source is missing.\<close>

type_synonym ptoken = "nat \<times> token"

text \<open>Modelled from the spec: character classes of the tokenizer (section 4.1); its source
  is missing.\<close>

definition is_space :: "char \<Rightarrow> bool" where
  "is_space c \<longleftrightarrow> c = CHR '' '' \<or> c = CHR 0x09 \<or> c = CHR 0x0A \<or> c = CHR 0x0D"

text \<open>Modelled from the spec: the character codes of decimal digits (section 4.1, numbers are
  words); the tokenizer's source is missing.\<close>

definition digit_code :: "nat \<Rightarrow> bool" where
  "digit_code n \<longleftrightarrow> 48 \<le> n \<and> n \<le> 57"

text \<open>Modelled from the spec: the character codes of ASCII letters (section 4.1, keywords and
  names); the tokenizer's source is missing.\<close>

definition letter_code :: "nat \<Rightarrow> bool" where
  "letter_code n \<longleftrightarrow> (65 \<le> n \<and> n \<le> 90) \<or> (97 \<le> n \<and> n \<le> 122)"

text \<open>Modelled from the spec: a decimal digit (section 4.1); the tokenizer's source is
  missing.\<close>

definition is_digit :: "char \<Rightarrow> bool" where
  "is_digit c \<longleftrightarrow> digit_code (of_char c)"

text \<open>Modelled from the spec: the characters of a word: digits, letters, underscore and the
  dot of a qualified name (section 4.1); the tokenizer's source is missing.\<close>

definition is_word_char :: "char \<Rightarrow> bool" where
  "is_word_char c \<longleftrightarrow>
     digit_code (of_char c) \<or> letter_code (of_char c) \<or> c = CHR ''_'' \<or> c = CHR ''.''"

text \<open>Modelled from the spec: keywords are found case-insensitively (section 4.1), here by
  upper-casing every word as it is read; the tokenizer's source is missing.\<close>

definition upper_char :: "char \<Rightarrow> char" where
  "upper_char c =
     (case map_of (zip ''abcdefghijklmnopqrstuvwxyz'' ''ABCDEFGHIJKLMNOPQRSTUVWXYZ'') c of
        Some u \<Rightarrow> u
      | None \<Rightarrow> c)"

text \<open>Modelled from the spec: the upper-case form of a word, for case-insensitive keywords
  (section 4.1); the tokenizer's source is missing.\<close>

definition upper :: "string \<Rightarrow> string" where
  "upper w = map upper_char w"

text \<open>Modelled from the spec: the scanner tracks string literals, comments and the nesting
  depth of parentheses (sections 4.1 and 9); its source is missing. \<open>pending\<close> is the word
  or literal being read, \<open>unbalanced\<close> records a closing parenthesis with none open, and
  \<open>skip\<close> drops the second character of a comment delimiter.\<close>

datatype mode = Code | Literal char | LineComment | BlockComment

text \<open>Modelled from the spec: the state of the scanner (sections 4.1 and 9); the tokenizer's
  source is missing.\<close>

record lexer =
  mode :: mode
  depth :: nat
  pending :: string
  emitted :: "ptoken list"
  unbalanced :: bool
  skip :: bool

text \<open>Modelled from the spec: the scanner appends a token at the current depth (section 2,
  flat token stream); the tokenizer's source is missing.\<close>

definition emit :: "token \<Rightarrow> lexer \<Rightarrow> lexer" where
  "emit t s = s\<lparr>emitted := emitted s @ [(depth s, t)]\<rparr>"

text \<open>Modelled from the spec: the scanner ends the word it is reading (section 2, flat token
  stream); the tokenizer's source is missing.\<close>

definition flush :: "lexer \<Rightarrow> lexer" where
  "flush s =
     (if pending s = [] then s else (emit (Word (upper (pending s))) s)\<lparr>pending := []\<rparr>)"

text \<open>Modelled from the spec: one step of the scanner on the character \<open>c\<close>, with the next
  character \<open>n\<close> in view (section 4.1); its source is missing.\<close>

definition step :: "lexer \<Rightarrow> char \<Rightarrow> char option \<Rightarrow> lexer" where
  "step s c n =
     (if skip s then s\<lparr>skip := False\<rparr>
      else case mode s of
        LineComment \<Rightarrow> if c = CHR 0x0A then s\<lparr>mode := Code\<rparr> else s
      | BlockComment \<Rightarrow>
          if c = CHR ''*'' \<and> n = Some CHR ''/'' then s\<lparr>mode := Code, skip := True\<rparr> else s
      | Literal q \<Rightarrow>
          if c = q then (emit (Quoted (pending s)) s)\<lparr>mode := Code, pending := []\<rparr>
          else s\<lparr>pending := pending s @ [c]\<rparr>
      | Code \<Rightarrow>
          if is_word_char c then s\<lparr>pending := pending s @ [c]\<rparr>
          else
            let s' = flush s in
            if c = CHR ''-'' \<and> n = Some CHR ''-'' then s'\<lparr>mode := LineComment\<rparr>
            else if c = CHR ''/'' \<and> n = Some CHR ''*'' then
              s'\<lparr>mode := BlockComment, skip := True\<rparr>
            else if c = CHR 0x27 \<or> c = CHR 0x22 then s'\<lparr>mode := Literal c\<rparr>
            else if is_space c then s'
            else if c = CHR ''('' then (emit (Symbol c) s')\<lparr>depth := depth s' + 1\<rparr>
            else if c = CHR '')'' then
              (if depth s' = 0 then s'\<lparr>unbalanced := True\<rparr>
               else emit (Symbol c) (s'\<lparr>depth := depth s' - 1\<rparr>))
            else emit (Symbol c) s')"

text \<open>Modelled from the spec: the scanner runs over the text character by character (section
  4.1); the tokenizer's source is missing.\<close>

fun lex :: "lexer \<Rightarrow> string \<Rightarrow> lexer" where
  "lex s [] = s"
| "lex s (c # cs) = lex (step s c (case cs of [] \<Rightarrow> None | n # rest \<Rightarrow> Some n)) cs"

text \<open>Modelled from the spec: the scan of the whole text (section 4.1); the tokenizer's
  source is missing. A literal still open at the end of the text is closed there.\<close>

definition scan :: "string \<Rightarrow> lexer" where
  "scan text =
     (let s = lex \<lparr>mode = Code, depth = 0, pending = [], emitted = [], unbalanced = False,
                   skip = False\<rparr> text
      in case mode s of
           Literal q \<Rightarrow> (emit (Quoted (pending s)) s)\<lparr>pending := []\<rparr>
         | _ \<Rightarrow> flush s)"

text \<open>Modelled from the spec: clause boundaries are the top-level keywords SELECT, FROM,
  WHERE, GROUP BY, HAVING, ORDER BY and the row-limiting clauses, found outside literals,
  comments and parentheses (section 4.1); the tokenizer's source is missing.\<close>

definition is_kw :: "string \<Rightarrow> token \<Rightarrow> bool" where
  "is_kw k t \<longleftrightarrow> t = Word k"

text \<open>Modelled from the spec: a keyword at the top level, outside every parenthesis (section
  4.1); the tokenizer's source is missing.\<close>

definition top_kw :: "string \<Rightarrow> ptoken \<Rightarrow> bool" where
  "top_kw k = (\<lambda>(d, t). d = 0 \<and> is_kw k t)"

text \<open>Modelled from the spec: the keywords that start a clause (section 4.1); the tokenizer's
  source is missing.\<close>

definition clause_keywords :: "string list" where
  "clause_keywords =
     [''SELECT'', ''FROM'', ''WHERE'', ''GROUP'', ''HAVING'', ''ORDER'', ''LIMIT'', ''FETCH'']"

text \<open>Modelled from the spec: a clause boundary is a clause keyword at the top level (section
  4.1); the tokenizer's source is missing.\<close>

definition boundary :: "ptoken \<Rightarrow> bool" where
  "boundary = (\<lambda>(d, t). d = 0 \<and> list_ex (\<lambda>k. is_kw k t) clause_keywords)"

text \<open>Modelled from the spec: the text of a clause runs from its keyword to the next
  top-level clause keyword; \<open>None\<close> when the keyword is absent (sections 3 and 4.1); the
  tokenizer's source is missing.\<close>

definition clause :: "string \<Rightarrow> ptoken list \<Rightarrow> ptoken list option" where
  "clause k ts =
     (case dropWhile (\<lambda>t. \<not> top_kw k t) ts of
        [] \<Rightarrow> None
      | t # rest \<Rightarrow> Some (takeWhile (\<lambda>t. \<not> boundary t) rest))"

text \<open>Modelled from the spec: the text of a GROUP BY or ORDER BY clause, after its BY (section
  4.1); the tokenizer's source is missing.\<close>

definition clause_by :: "string \<Rightarrow> ptoken list \<Rightarrow> ptoken list option" where
  "clause_by k ts =
     map_option
       (\<lambda>body. case body of [] \<Rightarrow> [] | t # rest \<Rightarrow> if top_kw ''BY'' t then rest else body)
       (clause k ts)"

text \<open>Modelled from the spec: two neighbouring tokens of a stream, as in FETCH FIRST (section
  4.1); the tokenizer's source is missing.\<close>

fun adjacent :: "(ptoken \<Rightarrow> bool) \<Rightarrow> (ptoken \<Rightarrow> bool) \<Rightarrow> ptoken list \<Rightarrow> bool" where
  "adjacent P Q (a # b # ts) = (P a \<and> Q b \<or> adjacent P Q (b # ts))"
| "adjacent P Q ts = False"

text \<open>Modelled from the spec: the LIMIT-equivalent clauses are LIMIT, TOP, ROWNUM and FETCH
  FIRST (section 4.1); the tokenizer's source is missing.\<close>

definition limit_equivalent :: "ptoken list \<Rightarrow> bool" where
  "limit_equivalent ts \<longleftrightarrow>
     list_ex (\<lambda>t. top_kw ''LIMIT'' t \<or> top_kw ''TOP'' t \<or> top_kw ''ROWNUM'' t) ts \<or>
     adjacent (top_kw ''FETCH'') (top_kw ''FIRST'') ts"

text \<open>Modelled from the spec: a JOIN entry is a join type with its condition or the absence
  of one (section 3); a comma in the FROM clause is an entry of its own, the implicit
  join (section 4.2 and scenario 2 of section 8); the tokenizer's source is missing.\<close>

datatype join_type =
  Implicit | Plain | Inner | LeftOuter | RightOuter | FullOuter | Cross | Natural

text \<open>Modelled from the spec: a JOIN entry, its type and its condition or the absence of one
  (section 3); the tokenizer's source is missing.\<close>

type_synonym join_entry = "join_type \<times> ptoken list option"

text \<open>Modelled from the spec: the join type named by the word before JOIN (section 3); the
  tokenizer's source is missing.\<close>

definition join_type_of :: "string \<Rightarrow> join_type" where
  "join_type_of modifier =
     (if modifier = ''INNER'' then Inner
      else if modifier = ''LEFT'' then LeftOuter
      else if modifier = ''RIGHT'' then RightOuter
      else if modifier = ''FULL'' then FullOuter
      else if modifier = ''CROSS'' then Cross
      else if modifier = ''NATURAL'' then Natural
      else Plain)"

text \<open>Modelled from the spec: where the next join of a FROM clause starts (section 3, JOIN
  entries); the tokenizer's source is missing.\<close>

definition join_start :: "ptoken \<Rightarrow> bool" where
  "join_start = (\<lambda>(d, t). d = 0 \<and> (t = Symbol CHR '','' \<or> is_kw ''JOIN'' t))"

text \<open>Modelled from the spec: the ON or USING condition of a join, when it has one (section
  3); the tokenizer's source is missing.\<close>

definition condition :: "ptoken list \<Rightarrow> ptoken list option" where
  "condition ts =
     (case dropWhile (\<lambda>t. \<not> (top_kw ''ON'' t \<or> top_kw ''USING'' t))
             (takeWhile (\<lambda>t. \<not> join_start t) ts) of
        [] \<Rightarrow> None
      | t # c \<Rightarrow> Some c)"

text \<open>Modelled from the spec: the JOIN entries of a FROM clause, in order (section 3); the
  tokenizer's source is missing.\<close>

fun join_entries :: "string \<Rightarrow> ptoken list \<Rightarrow> join_entry list" where
  "join_entries modifier [] = []"
| "join_entries modifier ((d, t) # ts) =
     (if d = 0 \<and> t = Symbol CHR '','' then (Implicit, None) # join_entries [] ts
      else if d = 0 \<and> is_kw ''JOIN'' t then
        (join_type_of modifier, condition ts) # join_entries [] ts
      else if d = 0 then
        join_entries
          (case t of Word w \<Rightarrow> if w = ''OUTER'' then modifier else w | _ \<Rightarrow> []) ts
      else join_entries modifier ts)"

text \<open>Modelled from the spec: StatementFragments (section 3); the tokenizer's source is
  missing. The text of a clause is kept as its tokens.\<close>

record StatementFragments =
  select_list :: "ptoken list"
  from_clause :: "ptoken list option"
  joins :: "join_entry list"
  where_clause :: "ptoken list option"
  group_by :: "ptoken list option"
  having :: "ptoken list option"
  order_by :: "ptoken list option"
  limit_present :: bool

text \<open>Modelled from the spec: the fragments of a token stream (sections 3 and 4.1); the
  tokenizer's source is missing.\<close>

definition fragments :: "ptoken list \<Rightarrow> StatementFragments" where
  "fragments ts =
     \<lparr>select_list = (case clause ''SELECT'' ts of None \<Rightarrow> [] | Some body \<Rightarrow> body),
      from_clause = clause ''FROM'' ts,
      joins = (case clause ''FROM'' ts of None \<Rightarrow> [] | Some body \<Rightarrow> join_entries [] body),
      where_clause = clause ''WHERE'' ts,
      group_by = clause_by ''GROUP'' ts,
      having = clause ''HAVING'' ts,
      order_by = clause_by ''ORDER'' ts,
      limit_present = limit_equivalent ts\<rparr>"

text \<open>Modelled from the spec: the defects the tokenizer detects at minimum, an unknown
  leading keyword, unbalanced parentheses and an incomplete clause (section 4.1); the
  tokenizer's source is missing. A join without a condition is not among them.\<close>

definition statement_keywords :: "string list" where
  "statement_keywords = [''SELECT'', ''WITH'', ''INSERT'', ''UPDATE'', ''DELETE'']"

text \<open>Modelled from the spec: the statement starts with a known keyword (section 4.1); the
  tokenizer's source is missing.\<close>

definition leading_keyword :: "ptoken list \<Rightarrow> bool" where
  "leading_keyword ts =
     (case ts of [] \<Rightarrow> False | (d, t) # rest \<Rightarrow> list_ex (\<lambda>k. is_kw k t) statement_keywords)"

text \<open>Modelled from the spec: a clause whose keyword is followed by nothing is incomplete
  (section 4.1); the tokenizer's source is missing.\<close>

definition incomplete_clauses :: "ptoken list \<Rightarrow> string list" where
  "incomplete_clauses ts =
     map (\<lambda>(name, body). ''Incomplete '' @ name @ '' clause'')
       (filter (\<lambda>(name, body). body = Some [])
          [(''SELECT'', clause ''SELECT'' ts), (''FROM'', clause ''FROM'' ts),
           (''WHERE'', clause ''WHERE'' ts), (''GROUP BY'', clause_by ''GROUP'' ts),
           (''HAVING'', clause ''HAVING'' ts), (''ORDER BY'', clause_by ''ORDER'' ts)])"

text \<open>Modelled from the spec: the syntax errors of a text, in the order leading keyword,
  parentheses, clauses (section 4.1); the tokenizer's source is missing.\<close>

definition syntax_errors_of :: "string \<Rightarrow> string list" where
  "syntax_errors_of text =
     (let s = scan text in
        (if leading_keyword (emitted s) then [] else [''Unrecognized leading keyword'']) @
        (if unbalanced s \<or> 0 < depth s then [''Unbalanced parentheses''] else []) @
        incomplete_clauses (emitted s))"

text \<open>Modelled from the spec: the tokenizer's contract, either StatementFragments or a
  non-empty list of SyntaxErrors, never both (section 4.1); its source is missing.\<close>

definition tokenize :: "string \<Rightarrow> string list + StatementFragments" where
  "tokenize text =
     (case syntax_errors_of text of
        [] \<Rightarrow> Inr (fragments (emitted (scan text)))
      | e # es \<Rightarrow> Inl (e # es))"

subsection \<open>Complexity scorer\<close>

text \<open>Modelled from the spec: what the scorer counts per occurrence, a subquery (an opening
  parenthesis followed by SELECT), a UNION, a CASE expression and a scalar function
  invocation (a name that is neither a keyword nor an aggregate, followed by an opening
  parenthesis) (section 4.3); the scorer's source is missing.\<close>

definition reserved :: "string list" where
  "reserved =
     [''SELECT'', ''FROM'', ''WHERE'', ''GROUP'', ''BY'', ''HAVING'', ''ORDER'', ''LIMIT'',
      ''OFFSET'', ''FETCH'', ''FIRST'', ''TOP'', ''DISTINCT'', ''ALL'', ''AS'', ''ON'', ''USING'',
      ''JOIN'', ''INNER'', ''LEFT'', ''RIGHT'', ''FULL'', ''OUTER'', ''CROSS'', ''NATURAL'',
      ''AND'', ''OR'', ''NOT'', ''IN'', ''EXISTS'', ''ANY'', ''SOME'', ''LIKE'', ''BETWEEN'',
      ''IS'', ''NULL'', ''TRUE'', ''FALSE'', ''CASE'', ''WHEN'', ''THEN'', ''ELSE'', ''END'',
      ''UNION'', ''INTERSECT'', ''EXCEPT'', ''ASC'', ''DESC'', ''WITH'', ''INSERT'', ''INTO'',
      ''VALUES'', ''UPDATE'', ''SET'', ''DELETE'']"

text \<open>Modelled from the spec: a name: a word that is neither a number nor a keyword (section
  4.3, function invocations; section 4.2, columns); the scorer's source is missing.\<close>

definition is_identifier :: "string \<Rightarrow> bool" where
  "is_identifier w =
     (case w of [] \<Rightarrow> False | c # cs \<Rightarrow> \<not> is_digit c \<and> w \<notin> set reserved)"

text \<open>Modelled from the spec: the aggregate functions, which are not scalar (sections 4.2 and
  4.3); the scorer's source is missing.\<close>

definition aggregates :: "string list" where
  "aggregates = [''COUNT'', ''SUM'', ''AVG'', ''MIN'', ''MAX'']"

text \<open>Modelled from the spec: the rest of the stream starts with an opening parenthesis
  (section 4.3); the scorer's source is missing.\<close>

definition opens :: "ptoken list \<Rightarrow> bool" where
  "opens rest = (case rest of [] \<Rightarrow> False | (d, u) # others \<Rightarrow> u = Symbol CHR ''('')"

text \<open>Modelled from the spec: a function invocation, a name followed by an opening parenthesis
  (section 4.3); the scorer's source is missing.\<close>

definition is_call :: "ptoken \<Rightarrow> ptoken list \<Rightarrow> bool" where
  "is_call t rest = (case snd t of Word f \<Rightarrow> is_identifier f \<and> opens rest | _ \<Rightarrow> False)"

text \<open>Modelled from the spec: an invocation of an aggregate (section 4.2, redundant distinct);
  the scorer's source is missing.\<close>

definition is_aggregate_call :: "ptoken \<Rightarrow> ptoken list \<Rightarrow> bool" where
  "is_aggregate_call t rest =
     (case snd t of Word f \<Rightarrow> f \<in> set aggregates \<and> opens rest | _ \<Rightarrow> False)"

text \<open>Modelled from the spec: a scalar function invocation (section 4.3); the scorer's source
  is missing.\<close>

definition is_scalar_call :: "ptoken \<Rightarrow> ptoken list \<Rightarrow> bool" where
  "is_scalar_call t rest \<longleftrightarrow> is_call t rest \<and> \<not> is_aggregate_call t rest"

text \<open>Modelled from the spec: a subquery, an opening parenthesis followed by SELECT (section
  4.3); the scorer's source is missing.\<close>

definition is_subquery :: "ptoken \<Rightarrow> ptoken list \<Rightarrow> bool" where
  "is_subquery t rest =
     (snd t = Symbol CHR ''('' \<and>
      (case rest of [] \<Rightarrow> False | (d, u) # others \<Rightarrow> is_kw ''SELECT'' u))"

text \<open>Modelled from the spec: a UNION (section 4.3); the scorer's source is missing.\<close>

definition is_union :: "ptoken \<Rightarrow> ptoken list \<Rightarrow> bool" where
  "is_union t rest = is_kw ''UNION'' (snd t)"

text \<open>Modelled from the spec: a CASE expression (section 4.3); the scorer's source is missing.\<close>

definition is_case :: "ptoken \<Rightarrow> ptoken list \<Rightarrow> bool" where
  "is_case t rest = is_kw ''CASE'' (snd t)"

text \<open>Modelled from the spec: the number of places of a token stream where a construct
  starts (section 4.3, per-occurrence weights); the scorer's source is missing.\<close>

fun occurrences :: "(ptoken \<Rightarrow> ptoken list \<Rightarrow> bool) \<Rightarrow> ptoken list \<Rightarrow> nat" where
  "occurrences P [] = 0"
| "occurrences P (t # ts) = (if P t ts then 1 else 0) + occurrences P ts"

text \<open>Modelled from the spec: the scorer walks the fragments and the token stream and
  accumulates the weights, then clamps the sum to \<open>[0, 100]\<close> (sections 2 and 4.3); its
  source is missing.\<close>

definition weight_at :: "ptoken \<Rightarrow> ptoken list \<Rightarrow> int" where
  "weight_at t rest =
     (if is_subquery t rest then 3 else 0) + (if is_union t rest then 2 else 0) +
     (if is_case t rest then 1 else 0) + (if is_scalar_call t rest then 1 else 0)"

text \<open>Modelled from the spec: the walk over the token stream that accumulates the weights
  (sections 2 and 4.3); the scorer's source is missing.\<close>

fun walk :: "int \<Rightarrow> ptoken list \<Rightarrow> int" where
  "walk acc [] = acc"
| "walk acc (t # ts) = walk (acc + weight_at t ts) ts"

text \<open>Modelled from the spec: the clamp to the closed interval from 0 to 100 (section 4.3);
  the scorer's source is missing.\<close>

definition clamp :: "int \<Rightarrow> int" where
  "clamp x = max 0 (min 100 x)"

text \<open>Modelled from the spec: the complexity score of the fragments and the raw text (section
  4.3); the scorer's source is missing.\<close>

definition score :: "StatementFragments \<Rightarrow> string \<Rightarrow> int" where
  "score f text =
     clamp (walk (foldl (\<lambda>acc j. acc + 2) 0 (joins f) +
                  (if group_by f \<noteq> None then 1 else 0) +
                  (if order_by f \<noteq> None then 1 else 0) +
                  (if having f \<noteq> None then 2 else 0))
              (emitted (scan text)))"

subsection \<open>Rule catalog\<close>

text \<open>Modelled from the spec: a comparison, for the rule on a function applied to a bare
  column before comparison (section 4.2); the rules' source is missing.\<close>

definition is_comparison :: "token \<Rightarrow> bool" where
  "is_comparison t =
     (case t of
        Symbol c \<Rightarrow> c = CHR ''='' \<or> c = CHR ''<'' \<or> c = CHR ''>'' \<or> c = CHR ''!''
      | Word w \<Rightarrow> w = ''LIKE'' \<or> w = ''IN'' \<or> w = ''BETWEEN''
      | Quoted s \<Rightarrow> False)"

text \<open>Modelled from the spec: the token after the closing parenthesis of a call that
  opens at depth \<open>d\<close>, and the bare column a call is applied to (section 4.2, non-SARGable
  predicate); the rules' source is missing.\<close>

definition after_call :: "nat \<Rightarrow> ptoken list \<Rightarrow> token option" where
  "after_call d rest =
     (case dropWhile (\<lambda>(d', u). d < d') (drop 1 rest) of
        closing # (d', u) # others \<Rightarrow> Some u
      | _ \<Rightarrow> None)"

text \<open>Modelled from the spec: the bare column that is the first argument of a call (section
  4.2, non-SARGable predicate); the rules' source is missing.\<close>

definition bare_argument :: "ptoken list \<Rightarrow> string option" where
  "bare_argument rest =
     (case rest of
        opening # (d, Word c) # others \<Rightarrow> if is_identifier c then Some c else None
      | _ \<Rightarrow> None)"

text \<open>Modelled from the spec: the columns of a WHERE predicate that a function or cast is
  applied to directly, next to a comparison (section 4.2, non-SARGable predicate); the
  rules' source is missing.\<close>

fun wrapped_columns :: "token option \<Rightarrow> ptoken list \<Rightarrow> string list" where
  "wrapped_columns prev [] = []"
| "wrapped_columns prev ((d, t) # ts) =
     (case (if is_call (d, t) ts then bare_argument ts else None) of
        Some c \<Rightarrow>
          if (case prev of Some p \<Rightarrow> is_comparison p | None \<Rightarrow> False) \<or>
             (case after_call d ts of Some n \<Rightarrow> is_comparison n | None \<Rightarrow> False)
          then [c] else []
      | None \<Rightarrow> []) @ wrapped_columns (Some t) ts"

text \<open>Modelled from the spec: the LIKE patterns of a WHERE predicate that begin with a
  wildcard, each with the column it is matched against when that is a bare column
  (section 4.2, leading wildcard); the rules' source is missing.\<close>

definition is_wildcard_pattern :: "token \<Rightarrow> bool" where
  "is_wildcard_pattern t =
     (case t of Quoted (c # cs) \<Rightarrow> c = CHR ''%'' \<or> c = CHR ''_'' | _ \<Rightarrow> False)"

text \<open>Modelled from the spec: the LIKE patterns with a leading wildcard, in order (section
  4.2); the rules' source is missing.\<close>

fun leading_wildcards :: "token option \<Rightarrow> ptoken list \<Rightarrow> string option list" where
  "leading_wildcards prev ((d, t) # (d', u) # ts) =
     (if is_kw ''LIKE'' t \<and> is_wildcard_pattern u
      then [case prev of Some (Word c) \<Rightarrow> if is_identifier c then Some c else None
            | _ \<Rightarrow> None]
      else []) @ leading_wildcards (Some t) ((d', u) # ts)"
| "leading_wildcards prev ts = []"

text \<open>Modelled from the spec: the columns a WHERE predicate references at its top level
  (section 4.2, filter-column index hint); the rules' source is missing.\<close>

fun top_columns :: "ptoken list \<Rightarrow> string list" where
  "top_columns [] = []"
| "top_columns ((d, t) # ts) =
     (case t of
        Word c \<Rightarrow> if d = 0 \<and> is_identifier c \<and> \<not> opens ts then [c] else []
      | _ \<Rightarrow> []) @ top_columns ts"

text \<open>Modelled from the spec: the minimum rule set of section 4.2, in its declared order;
  the rules' source is missing.\<close>

datatype rule_id =
  SelectStar | MissingFilter | MissingBound | RedundantDistinct
  | NonSargable | LeadingWildcard | FilterColumnIndex | SortColumnIndex
  | ImplicitJoin | MissingJoinCondition | SubqueryToJoin

text \<open>Modelled from the spec: the declared order of the rules, Performance, Index, Join
  (section 4.2); the rules' source is missing.\<close>

definition rule_ids :: "rule_id list" where
  "rule_ids =
     [SelectStar, MissingFilter, MissingBound, RedundantDistinct,
      NonSargable, LeadingWildcard, FilterColumnIndex, SortColumnIndex,
      ImplicitJoin, MissingJoinCondition, SubqueryToJoin]"

text \<open>Modelled from the spec: the title, category and severity columns of the rule table
  (section 4.2); the rules' source is missing.\<close>

fun rule_title :: "rule_id \<Rightarrow> string" where
  "rule_title SelectStar = ''Select-star''"
| "rule_title MissingFilter = ''Missing filter''"
| "rule_title MissingBound = ''Missing bound''"
| "rule_title RedundantDistinct = ''Redundant distinct''"
| "rule_title NonSargable = ''Non-SARGable predicate''"
| "rule_title LeadingWildcard = ''Leading wildcard''"
| "rule_title FilterColumnIndex = ''Filter-column index hint''"
| "rule_title SortColumnIndex = ''Sort-column index hint''"
| "rule_title ImplicitJoin = ''Implicit join''"
| "rule_title MissingJoinCondition = ''Missing join condition''"
| "rule_title SubqueryToJoin = ''Subquery-to-join''"

text \<open>Modelled from the spec: the category column of the rule table (section 4.2); the rules'
  source is missing.\<close>

fun rule_category :: "rule_id \<Rightarrow> category" where
  "rule_category SelectStar = Performance"
| "rule_category MissingFilter = Performance"
| "rule_category MissingBound = Performance"
| "rule_category RedundantDistinct = Performance"
| "rule_category NonSargable = Index"
| "rule_category LeadingWildcard = Index"
| "rule_category FilterColumnIndex = Index"
| "rule_category SortColumnIndex = Index"
| "rule_category ImplicitJoin = Join"
| "rule_category MissingJoinCondition = Join"
| "rule_category SubqueryToJoin = Join"

text \<open>Modelled from the spec: the severity column of the rule table (section 4.2); the rules'
  source is missing.\<close>

fun rule_severity :: "rule_id \<Rightarrow> Severity" where
  "rule_severity SelectStar = Medium"
| "rule_severity MissingFilter = High"
| "rule_severity MissingBound = Medium"
| "rule_severity RedundantDistinct = Low"
| "rule_severity NonSargable = High"
| "rule_severity LeadingWildcard = Medium"
| "rule_severity FilterColumnIndex = Medium"
| "rule_severity SortColumnIndex = Low"
| "rule_severity ImplicitJoin = Medium"
| "rule_severity MissingJoinCondition = High"
| "rule_severity SubqueryToJoin = Medium"

text \<open>Modelled from the spec: a join needs a condition unless it is a comma, CROSS or
  NATURAL join (section 4.1, a condition "when required"); the rules' source is missing.\<close>

definition needs_condition :: "join_type \<Rightarrow> bool" where
  "needs_condition j \<longleftrightarrow> j \<noteq> Implicit \<and> j \<noteq> Cross \<and> j \<noteq> Natural"

text \<open>Modelled from the spec: the trigger condition column of the rule table
  (section 4.2); the rules' source is missing.\<close>

fun triggered :: "rule_id \<Rightarrow> string \<Rightarrow> StatementFragments \<Rightarrow> bool" where
  "triggered SelectStar text f \<longleftrightarrow> map snd (select_list f) = [Symbol CHR ''*'']"
| "triggered MissingFilter text f \<longleftrightarrow> where_clause f = None"
| "triggered MissingBound text f \<longleftrightarrow> \<not> limit_present f"
| "triggered RedundantDistinct text f \<longleftrightarrow>
     list_ex (top_kw ''DISTINCT'') (select_list f) \<and> joins f = [] \<and>
     occurrences is_aggregate_call (emitted (scan text)) = 0"
| "triggered NonSargable text f \<longleftrightarrow>
     (case where_clause f of None \<Rightarrow> False | Some w \<Rightarrow> wrapped_columns None w \<noteq> [])"
| "triggered LeadingWildcard text f \<longleftrightarrow>
     (case where_clause f of None \<Rightarrow> False | Some w \<Rightarrow> leading_wildcards None w \<noteq> [])"
| "triggered FilterColumnIndex text f \<longleftrightarrow>
     (case where_clause f of
        None \<Rightarrow> False
      | Some w \<Rightarrow>
          list_ex (\<lambda>c. c \<notin> set (wrapped_columns None w) \<and>
                        Some c \<notin> set (leading_wildcards None w))
            (top_columns w))"
| "triggered SortColumnIndex text f \<longleftrightarrow> order_by f \<noteq> None"
| "triggered ImplicitJoin text f \<longleftrightarrow> list_ex (\<lambda>(j, c). j = Implicit) (joins f)"
| "triggered MissingJoinCondition text f \<longleftrightarrow>
     list_ex (\<lambda>(j, c). needs_condition j \<and> c = None) (joins f)"
| "triggered SubqueryToJoin text f \<longleftrightarrow>
     (case where_clause f of
        None \<Rightarrow> False
      | Some w \<Rightarrow>
          0 < occurrences
                (\<lambda>t rest. is_kw ''IN'' (snd t) \<and>
                   (case rest of [] \<Rightarrow> False | a # others \<Rightarrow> is_subquery a others)) w)"

text \<open>Modelled from the spec: the description, recommendation and example of a
  suggestion are wording that the spec does not fix (section 4.2 calls the example
  cosmetic), so a catalog is built from a table of wording; the rules' source is
  missing.\<close>

record wording =
  description_of :: "rule_id \<Rightarrow> string"
  recommendation_of :: "rule_id \<Rightarrow> string"
  example_of :: "rule_id \<Rightarrow> string option"

text \<open>Modelled from the spec: a rule is a pure function from the raw text and the
  fragments to zero or more suggestions; a rule that fails internally yields \<open>None\<close>
  (section 4.2); the rules' source is missing.\<close>

type_synonym rule = "string \<Rightarrow> StatementFragments \<Rightarrow> Suggestion list option"

text \<open>Modelled from the spec: a rule of the table yields one suggestion when its trigger holds
  and none otherwise, and never fails (section 4.2); the rules' source is missing.\<close>

definition standard_rule :: "wording \<Rightarrow> rule_id \<Rightarrow> rule" where
  "standard_rule w r text f =
     Some (if triggered r text f
           then [\<lparr>Category = rule_category r, Severity = rule_severity r,
                  Title = rule_title r, Description = description_of w r,
                  Recommendation = recommendation_of w r, Example = example_of w r\<rparr>]
           else [])"

text \<open>Modelled from the spec: the catalog of named rules in registration order (section 4.2);
  the rules' source is missing.\<close>

definition rule_catalog :: "wording \<Rightarrow> (string \<times> rule) list" where
  "rule_catalog w = map (\<lambda>r. (rule_title r, standard_rule w r)) rule_ids"

text \<open>Modelled from the spec: the catalog runner evaluates the rules in their declared
  order and skips a rule that fails (sections 4.2 and 7); its source is missing.\<close>

definition run_rules :: "(string \<times> rule) list \<Rightarrow> string \<Rightarrow> StatementFragments \<Rightarrow> Suggestion list" where
  "run_rules catalog text f =
     concat (map (\<lambda>(name, r). case r text f of None \<Rightarrow> [] | Some found \<Rightarrow> found) catalog)"

subsection \<open>Orchestrator\<close>

text \<open>Modelled from the spec: what lives as long as the process, the read-only rule
  catalog, and the dialect tip generator, whose tips the spec describes only by example
  (sections 3 and 4.4); the engine's source is missing.\<close>

record engine =
  catalog :: "(string \<times> rule) list"
  tip_generator :: "dialect \<Rightarrow> StatementFragments \<Rightarrow> string list"

text \<open>Modelled from the spec: the engine built once at startup from the rule table (section 3,
  lifecycle); the orchestrator's source is missing.\<close>

definition startup :: "wording \<Rightarrow> (dialect \<Rightarrow> StatementFragments \<Rightarrow> string list) \<Rightarrow> engine" where
  "startup w tips = \<lparr>catalog = rule_catalog w, tip_generator = tips\<rparr>"

text \<open>Modelled from the spec: the orchestrator of section 4.5. It tokenizes; on syntax
  errors it returns them with no suggestions and score 0; otherwise it runs the rules,
  computes the score and generates the tips. The engine's source is missing.\<close>

definition analyze :: "engine \<Rightarrow> string \<Rightarrow> string \<Rightarrow> AnalysisResult_engine" where
  "analyze e query_text dialect_tag =
     (case tokenize query_text of
        Inl errors \<Rightarrow>
          \<lparr>QueryText = query_text, DialectTag = dialect_tag, Suggestions = [],
           ComplexityScore = 0, Tips = [], SyntaxErrors = Some errors\<rparr>
      | Inr f \<Rightarrow>
          \<lparr>QueryText = query_text, DialectTag = dialect_tag,
           Suggestions = run_rules (catalog e) query_text f,
           ComplexityScore = score f query_text,
           Tips = tip_generator e (dialect_of dialect_tag) f,
           SyntaxErrors = None\<rparr>)"

section \<open>Sample inputs\<close>

text \<open>Sample inputs on which the statements below are evaluated.\<close>

definition samplePage :: "jsstring \<Rightarrow> page" where
  "samplePage q =
     \<lparr>query_st = q, databaseType = js ''mysql'', error = JNull, analysisResult = None,
      isLoading = False, posted = []\<rparr>"

definition sampleBlocked :: AnalysisResult where
  "sampleBlocked =
     \<lparr>query = js ''selet * from users;'', database_type = js ''mysql'',
      suggestions =
        [\<lparr>type_sg = js ''performance'', severity = js ''medium'', title = js ''SELECT * Usage'',
          description = js ''Unnecessary column retrieval'',
          suggestion = js ''Specify only the columns you need'', example = None\<rparr>],
      complexity_score = 0, execution_plan_tips = [],
      syntax_errors = Some [js ''Invalid SQL syntax'']\<rparr>"

definition samplePage_v1 :: "jsstring \<Rightarrow> page_v1" where
  "samplePage_v1 q =
     \<lparr>query_st_v1 = q, error_v1 = JNull, analysisResult_v1 = None, isLoading_v1 = False,
      posted_v1 = []\<rparr>"

definition sampleClean :: AnalysisResult where
  "sampleClean =
     \<lparr>query = js ''SELECT 1'', database_type = js ''mysql'', suggestions = [],
      complexity_score = 0, execution_plan_tips = [], syntax_errors = None\<rparr>"

definition sampleDetail422 :: jsvalue where
  "sampleDetail422 =
     JArray [JObject [(js ''loc'', JArray [JString (js ''body''), JString (js ''query'')]),
                      (js ''msg'', JString (js ''field required'')),
                      (js ''type'', JString (js ''value_error.missing''))]]"

definition sampleWording :: wording where
  "sampleWording =
     \<lparr>description_of = rule_title, recommendation_of = (\<lambda>r. []), example_of = (\<lambda>r. None)\<rparr>"

definition sampleEngine :: engine where
  "sampleEngine = startup sampleWording (\<lambda>d f. [])"

definition cleanQuery :: string where
  "cleanQuery = ''SELECT id FROM users WHERE 1 = 1 LIMIT 10''"

definition malformedQuery :: string where
  "malformedQuery = ''selet * from users;''"

definition sampleQuery :: string where
  "sampleQuery =
     ''SELECT ABS(b) FROM t JOIN u ON c = d WHERE x IN (SELECT 1) '' @
     ''GROUP BY a HAVING e > 1 UNION SELECT CASE WHEN f THEN 1 END ORDER BY g''"

definition sampleTokens :: "ptoken list" where
  "sampleTokens =
     [(0, Word ''SELECT''), (0, Word ''ABS''), (0, Symbol CHR ''(''), (1, Word ''B''),
      (0, Symbol CHR '')''), (0, Word ''FROM''), (0, Word ''T''), (0, Word ''JOIN''),
      (0, Word ''U''), (0, Word ''ON''), (0, Word ''C''), (0, Symbol CHR ''=''),
      (0, Word ''D''), (0, Word ''WHERE''), (0, Word ''X''), (0, Word ''IN''),
      (0, Symbol CHR ''(''), (1, Word ''SELECT''), (1, Word ''1''), (0, Symbol CHR '')''),
      (0, Word ''GROUP''), (0, Word ''BY''), (0, Word ''A''), (0, Word ''HAVING''),
      (0, Word ''E''), (0, Symbol CHR ''>''), (0, Word ''1''), (0, Word ''UNION''),
      (0, Word ''SELECT''), (0, Word ''CASE''), (0, Word ''WHEN''), (0, Word ''F''),
      (0, Word ''THEN''), (0, Word ''1''), (0, Word ''END''), (0, Word ''ORDER''),
      (0, Word ''BY''), (0, Word ''G'')]"

section \<open>Properties of the browser client\<close>

subsection \<open>Complexity levels\<close>

text \<open>
  C7. For every score \<open>s\<close> in \<open>[0, 100]\<close> the level that \<open>getComplexityLevel\<close>
  displays is Simple when \<open>s \<le> 20\<close>, Moderate when \<open>21 \<le> s \<le> 40\<close>, Complex when
  \<open>41 \<le> s \<le> 70\<close> and Very Complex when \<open>71 \<le> s \<le> 100\<close>: the reference thresholds.
\<close>

theorem getComplexityLevel_thresholds:
  assumes "0 \<le> s" and "s \<le> 100"
  shows "(s \<le> 20 \<longrightarrow> level (getComplexityLevel s) = js ''Simple'') \<and>
         (21 \<le> s \<and> s \<le> 40 \<longrightarrow> level (getComplexityLevel s) = js ''Moderate'') \<and>
         (41 \<le> s \<and> s \<le> 70 \<longrightarrow> level (getComplexityLevel s) = js ''Complex'') \<and>
         (71 \<le> s \<and> s \<le> 100 \<longrightarrow> level (getComplexityLevel s) = js ''Very Complex'')"
  by (simp add: getComplexityLevel_def)

theorem getComplexityLevel_thresholds_witness:
  "level (getComplexityLevel 0) = js ''Simple'' \<and>
   level (getComplexityLevel 20) = js ''Simple'' \<and>
   level (getComplexityLevel 21) = js ''Moderate'' \<and>
   level (getComplexityLevel 40) = js ''Moderate'' \<and>
   level (getComplexityLevel 41) = js ''Complex'' \<and>
   level (getComplexityLevel 70) = js ''Complex'' \<and>
   level (getComplexityLevel 71) = js ''Very Complex'' \<and>
   level (getComplexityLevel 100) = js ''Very Complex''"
  using getComplexityLevel_thresholds [of 0] getComplexityLevel_thresholds [of 20]
    getComplexityLevel_thresholds [of 21] getComplexityLevel_thresholds [of 40]
    getComplexityLevel_thresholds [of 41] getComplexityLevel_thresholds [of 70]
    getComplexityLevel_thresholds [of 71] getComplexityLevel_thresholds [of 100]
  by simp

subsection \<open>Submitting a query\<close>

lemma trim_blank: "trim (js ''  '') = []"
  by (simp add: trim_def js_def isWhiteSpace_def)

lemma trim_select_1: "trim (js '' SELECT 1 '') = js ''SELECT 1''"
  by (simp add: trim_def js_def isWhiteSpace_def)

text \<open>
  C8. When the trimmed query is empty, \<open>handleSubmit\<close> sends no request: it only sets
  the error message, whatever the server would answer. When the trimmed query is not
  empty, it sends exactly one request to \<^verbatim>\<open>/analyze\<close>, whose body carries the
  trimmed query text (and the selected database type).
\<close>

theorem handleSubmit_validates:
  "(trim (query_st s) = [] \<longrightarrow>
      handleSubmit server s = s\<lparr>error := JString (js ''Please enter a SQL query'')\<rparr> \<and>
      posted (handleSubmit server s) = posted s) \<and>
   (trim (query_st s) \<noteq> [] \<longrightarrow>
      posted (handleSubmit server s) =
        posted s @ [(js ''/analyze'',
                     \<lparr>query_req = trim (query_st s), database_type_req = databaseType s\<rparr>)])"
  by (simp add: handleSubmit_def Let_def handleAnalysisStart_def handleAnalysisComplete_def
      split: outcome.splits)

theorem handleSubmit_validates_witness:
  "posted (handleSubmit (\<lambda>body. Rejected JUndefined) (samplePage (js ''  ''))) = [] \<and>
   error (handleSubmit (\<lambda>body. Rejected JUndefined) (samplePage (js ''  ''))) =
     JString (js ''Please enter a SQL query'') \<and>
   posted (handleSubmit (\<lambda>body. Rejected JUndefined) (samplePage (js '' SELECT 1 ''))) =
     [(js ''/analyze'', \<lparr>query_req = js ''SELECT 1'', database_type_req = js ''mysql''\<rparr>)]"
proof -
  have blank: "trim (query_st (samplePage (js ''  ''))) = []"
    by (simp add: samplePage_def trim_blank)
  have tq: "trim (query_st (samplePage (js '' SELECT 1 ''))) = js ''SELECT 1''"
    by (simp add: samplePage_def trim_select_1)
  have ne: "js ''SELECT 1'' \<noteq> []"
    by (simp add: js_def)
  show ?thesis
    using handleSubmit_validates [of "samplePage (js ''  '')" "\<lambda>body. Rejected JUndefined"]
      handleSubmit_validates [of "samplePage (js '' SELECT 1 '')" "\<lambda>body. Rejected JUndefined"]
    by (simp add: blank tq ne) (simp add: samplePage_def)
qed

lemma classNames_statItem: "classNames (statItem l c v) = [js ''stat-item'', js ''stat-label'', c]"
  by (simp add: statItem_def)

lemma classNames_optional: "concat (map classNames (optional t)) = []"
  by (cases t) (simp_all add: optional_def)

lemma truthy_errorMessage: "truthy (errorMessage detail)"
  by (simp add: errorMessage_def js_def)

lemma handleSubmit_rejected:
  assumes "trim (query_st s) \<noteq> []"
    and "server \<lparr>query_req = trim (query_st s), database_type_req = databaseType s\<rparr> =
           Rejected detail"
  shows "handleSubmit server s =
     s\<lparr>error := errorMessage detail,
       analysisResult :=
         Some \<lparr>query = trim (query_st s), database_type = databaseType s, suggestions = [],
               complexity_score = 0, execution_plan_tips = [], syntax_errors = None\<rparr>,
       isLoading := False,
       posted := posted s @
         [(js ''/analyze'',
           \<lparr>query_req = trim (query_st s), database_type_req = databaseType s\<rparr>)]\<rparr>"
  using assms
  by (simp add: handleSubmit_def Let_def handleAnalysisStart_def handleAnalysisComplete_def)

lemma handleSubmit_resolved:
  assumes "trim (query_st s) \<noteq> []"
    and "server \<lparr>query_req = trim (query_st s), database_type_req = databaseType s\<rparr> =
           Resolved r"
  shows "handleSubmit server s =
     s\<lparr>error := JNull, analysisResult := Some r, isLoading := False,
       posted := posted s @
         [(js ''/analyze'',
           \<lparr>query_req = trim (query_st s), database_type_req = databaseType s\<rparr>)]\<rparr>"
  using assms
  by (simp add: handleSubmit_def Let_def handleAnalysisStart_def handleAnalysisComplete_def)

lemma view_without_errors:
  assumes "shownErrors r = None" and "shownErrors r' = None"
    and "query r = query r'" and "database_type r = database_type r'"
    and "suggestions r = suggestions r'" and "complexity_score r = complexity_score r'"
    and "execution_plan_tips r = execution_plan_tips r'"
  shows "OptimizationResults r ex = OptimizationResults r' ex"
proof -
  have sd: "selectedDatabase r = selectedDatabase r'"
    using assms by (simp add: selectedDatabase_def)
  show ?thesis
    unfolding OptimizationResults_def resultsHeader_def syntaxErrorsSection_def
      analyzedQuerySection_def suggestionsSection_def executionTipsSection_def
      summaryStats_def countSeverity_def Let_def
    by (simp only: assms sd)
qed

lemma substitute_view:
  assumes "suggestions r = []" and "complexity_score r = 0" and "execution_plan_tips r = []"
    and "shownErrors r = None"
  shows "js ''no-suggestions'' \<in> set (classNames (OptimizationResults r ex))"
    and "js ''Great job!'' \<in> set (texts (OptimizationResults r ex))"
    and "js ''Simple'' \<in> set (texts (OptimizationResults r ex))"
    and "js ''0'' \<in> set (texts (OptimizationResults r ex))"
    and "js ''syntax-errors-section'' \<notin> set (classNames (OptimizationResults r ex))"
    and "js ''execution-tips-section'' \<notin> set (classNames (OptimizationResults r ex))"
    and "js ''complexity-value green'' \<in> set (classNames (OptimizationResults r ex))"
    and "js ''suggestions-list'' \<notin> set (classNames (OptimizationResults r ex))"
  using assms
  by (simp_all add: OptimizationResults_def suggestionsSection_def resultsHeader_def Let_def
      getComplexityLevel_def toString_def syntaxErrorsSection_def executionTipsSection_def
      analyzedQuerySection_def summaryStats_def classNames_statItem classNames_optional js_def)

lemma handleSubmit_v1_rejected:
  assumes "trim (query_st_v1 s) \<noteq> []"
    and "server \<lparr>query_req_v1 = trim (query_st_v1 s)\<rparr> = Rejected_v1 detail"
  shows "handleSubmit_v1 server s =
     s\<lparr>error_v1 := errorMessage detail,
       analysisResult_v1 :=
         Some \<lparr>query_v1 = trim (query_st_v1 s), suggestions_v1 = [],
               complexity_score_v1 = 0, execution_plan_tips_v1 = []\<rparr>,
       isLoading_v1 := False,
       posted_v1 := posted_v1 s @ [(js ''/analyze'', \<lparr>query_req_v1 = trim (query_st_v1 s)\<rparr>)]\<rparr>"
  using assms
  by (simp add: handleSubmit_v1_def Let_def handleAnalysisStart_v1_def
      handleAnalysisComplete_v1_def)

lemma errorBanner_shown:
  assumes "truthy err" and "reactChild err = Inr shown"
  shows "errorBanner err =
     Inr [Element ''div'' (js ''error-message'') (Text [0x26A0, 0xFE0F, 0x0020] # shown)]"
  using assms by (simp add: errorBanner_def)

lemma errorBanner_null: "errorBanner JNull = Inr []"
  by (simp add: errorBanner_def)

lemma samplePage_select_1:
  "trim (query_st (samplePage (js '' SELECT 1 ''))) = js ''SELECT 1''"
  "databaseType (samplePage (js '' SELECT 1 '')) = js ''mysql''"
  by (simp_all add: samplePage_def trim_select_1)

lemma samplePage_v1_select_1:
  "trim (query_st_v1 (samplePage_v1 (js '' SELECT 1 ''))) = js ''SELECT 1''"
  by (simp add: samplePage_v1_def trim_select_1)

lemma select_1_not_empty: "js ''SELECT 1'' \<noteq> []"
  by (simp add: js_def)

lemma shown_default:
  "reactChild (errorMessage JUndefined) = Inr [Text (js ''Failed to analyze query'')]"
  by (simp add: errorMessage_def js_def)

text \<open>
  C9 (amended). Whenever the analyze request fails, with or without a response,
  \<open>handleSubmit\<close> hands the page a substitute result with the trimmed query text, the
  selected database type, no suggestions, score 0 and no execution-plan tips, and stores
  as the error the detail of the response when that is truthy and
  \<^verbatim>\<open>'Failed to analyze query'\<close> otherwise. When React can render that error, the
  page shows the error banner of the form and, below it, the results view of the
  substitute: level Simple in green, 0 of 100, the notice "Great job!", no list of
  suggestions, no syntax errors and no tips. After a successful answer with the same fields as the substitute the page shows
  that same results view and no banner, so a failure is not rendered as a clean query
  is. In the earlier version of the component the substitute has no database type.
\<close>

theorem handleSubmit_failure_page:
  "(trim (query_st s) \<noteq> [] \<and>
    server \<lparr>query_req = trim (query_st s), database_type_req = databaseType s\<rparr> =
      Rejected detail \<and>
    sub = \<lparr>query = trim (query_st s), database_type = databaseType s, suggestions = [],
            complexity_score = 0, execution_plan_tips = [], syntax_errors = None\<rparr> \<longrightarrow>
      analysisResult (handleSubmit server s) = Some sub \<and>
      isLoading (handleSubmit server s) = False \<and>
      error (handleSubmit server s) = errorMessage detail \<and>
      truthy (errorMessage detail) \<and>
      (\<forall>shown. reactChild (errorMessage detail) = Inr shown \<longrightarrow>
         pageView (handleSubmit server s) ex =
           Inr [Element ''div'' (js ''error-message'') (Text [0x26A0, 0xFE0F, 0x0020] # shown),
                OptimizationResults sub ex]) \<and>
      (\<forall>answers r.
         answers \<lparr>query_req = trim (query_st s), database_type_req = databaseType s\<rparr> =
           Resolved r \<and>
         (r = sub \<or> r = sub\<lparr>syntax_errors := Some []\<rparr>) \<longrightarrow>
         pageView (handleSubmit answers s) ex = Inr [OptimizationResults sub ex]) \<and>
      js ''no-suggestions'' \<in> set (classNames (OptimizationResults sub ex)) \<and>
      js ''Great job!'' \<in> set (texts (OptimizationResults sub ex)) \<and>
      js ''Simple'' \<in> set (texts (OptimizationResults sub ex)) \<and>
      js ''0'' \<in> set (texts (OptimizationResults sub ex)) \<and>
      js ''syntax-errors-section'' \<notin> set (classNames (OptimizationResults sub ex)) \<and>
      js ''execution-tips-section'' \<notin> set (classNames (OptimizationResults sub ex)) \<and>
      js ''complexity-value green'' \<in> set (classNames (OptimizationResults sub ex)) \<and>
      js ''suggestions-list'' \<notin> set (classNames (OptimizationResults sub ex))) \<and>
   (trim (query_st_v1 s1) \<noteq> [] \<and>
    server1 \<lparr>query_req_v1 = trim (query_st_v1 s1)\<rparr> = Rejected_v1 detail1 \<longrightarrow>
      analysisResult_v1 (handleSubmit_v1 server1 s1) =
        Some \<lparr>query_v1 = trim (query_st_v1 s1), suggestions_v1 = [],
              complexity_score_v1 = 0, execution_plan_tips_v1 = []\<rparr> \<and>
      isLoading_v1 (handleSubmit_v1 server1 s1) = False \<and>
      error_v1 (handleSubmit_v1 server1 s1) = errorMessage detail1)"
proof (intro conjI impI)
  assume h: "trim (query_st s) \<noteq> [] \<and>
    server \<lparr>query_req = trim (query_st s), database_type_req = databaseType s\<rparr> =
      Rejected detail \<and>
    sub = \<lparr>query = trim (query_st s), database_type = databaseType s, suggestions = [],
            complexity_score = 0, execution_plan_tips = [], syntax_errors = None\<rparr>"
  then have ne: "trim (query_st s) \<noteq> []"
    and rej: "server \<lparr>query_req = trim (query_st s), database_type_req = databaseType s\<rparr> =
      Rejected detail"
    and sub: "sub = \<lparr>query = trim (query_st s), database_type = databaseType s,
      suggestions = [], complexity_score = 0, execution_plan_tips = [],
      syntax_errors = None\<rparr>"
    by simp_all
  note st = handleSubmit_rejected [of s server detail, OF ne rej]
  have f: "suggestions sub = []" "complexity_score sub = 0" "execution_plan_tips sub = []"
    "shownErrors sub = None"
    by (simp_all add: sub shownErrors_def)
  show "analysisResult (handleSubmit server s) = Some sub"
    by (simp add: st sub)
  show "isLoading (handleSubmit server s) = False"
    by (simp add: st)
  show "error (handleSubmit server s) = errorMessage detail"
    by (simp add: st)
  show "truthy (errorMessage detail)"
    by (rule truthy_errorMessage)
  show "\<forall>shown. reactChild (errorMessage detail) = Inr shown \<longrightarrow>
         pageView (handleSubmit server s) ex =
           Inr [Element ''div'' (js ''error-message'') (Text [0x26A0, 0xFE0F, 0x0020] # shown),
                OptimizationResults sub ex]"
  proof (intro allI impI)
    fix shown
    assume c: "reactChild (errorMessage detail) = Inr shown"
    show "pageView (handleSubmit server s) ex =
           Inr [Element ''div'' (js ''error-message'') (Text [0x26A0, 0xFE0F, 0x0020] # shown),
                OptimizationResults sub ex]"
      by (simp add: pageView_def st errorBanner_shown [OF truthy_errorMessage c]
          loadingContainer_def resultsPane_def sub)
  qed
  show "\<forall>answers r.
         answers \<lparr>query_req = trim (query_st s), database_type_req = databaseType s\<rparr> =
           Resolved r \<and>
         (r = sub \<or> r = sub\<lparr>syntax_errors := Some []\<rparr>) \<longrightarrow>
         pageView (handleSubmit answers s) ex = Inr [OptimizationResults sub ex]"
  proof (intro allI impI)
    fix answers r
    assume a: "answers \<lparr>query_req = trim (query_st s), database_type_req = databaseType s\<rparr> =
           Resolved r \<and>
         (r = sub \<or> r = sub\<lparr>syntax_errors := Some []\<rparr>)"
    then have res: "answers \<lparr>query_req = trim (query_st s),
        database_type_req = databaseType s\<rparr> = Resolved r"
      by simp
    from a have "r = sub \<or> r = sub\<lparr>syntax_errors := Some []\<rparr>"
      by simp
    then have v: "OptimizationResults r ex = OptimizationResults sub ex"
    proof
      assume "r = sub"
      then show ?thesis by simp
    next
      assume r: "r = sub\<lparr>syntax_errors := Some []\<rparr>"
      have e: "shownErrors (sub\<lparr>syntax_errors := Some []\<rparr>) = None"
        by (simp add: shownErrors_def)
      show ?thesis
        by (rule view_without_errors) (simp_all add: r f e)
    qed
    show "pageView (handleSubmit answers s) ex = Inr [OptimizationResults sub ex]"
      by (simp add: pageView_def handleSubmit_resolved [of s answers r, OF ne res] errorBanner_null
          loadingContainer_def resultsPane_def v)
  qed
  show "js ''no-suggestions'' \<in> set (classNames (OptimizationResults sub ex))"
    by (rule substitute_view [OF f])
  show "js ''Great job!'' \<in> set (texts (OptimizationResults sub ex))"
    by (rule substitute_view [OF f])
  show "js ''Simple'' \<in> set (texts (OptimizationResults sub ex))"
    by (rule substitute_view [OF f])
  show "js ''0'' \<in> set (texts (OptimizationResults sub ex))"
    by (rule substitute_view [OF f])
  show "js ''syntax-errors-section'' \<notin> set (classNames (OptimizationResults sub ex))"
    by (rule substitute_view [OF f])
  show "js ''execution-tips-section'' \<notin> set (classNames (OptimizationResults sub ex))"
    by (rule substitute_view [OF f])
  show "js ''complexity-value green'' \<in> set (classNames (OptimizationResults sub ex))"
    by (rule substitute_view [OF f])
  show "js ''suggestions-list'' \<notin> set (classNames (OptimizationResults sub ex))"
    by (rule substitute_view [OF f])
next
  assume h: "trim (query_st_v1 s1) \<noteq> [] \<and>
    server1 \<lparr>query_req_v1 = trim (query_st_v1 s1)\<rparr> = Rejected_v1 detail1"
  then have st: "handleSubmit_v1 server1 s1 =
     s1\<lparr>error_v1 := errorMessage detail1,
       analysisResult_v1 :=
         Some \<lparr>query_v1 = trim (query_st_v1 s1), suggestions_v1 = [],
               complexity_score_v1 = 0, execution_plan_tips_v1 = []\<rparr>,
       isLoading_v1 := False,
       posted_v1 := posted_v1 s1 @
         [(js ''/analyze'', \<lparr>query_req_v1 = trim (query_st_v1 s1)\<rparr>)]\<rparr>"
    by (simp add: handleSubmit_v1_rejected)
  show "analysisResult_v1 (handleSubmit_v1 server1 s1) =
        Some \<lparr>query_v1 = trim (query_st_v1 s1), suggestions_v1 = [],
              complexity_score_v1 = 0, execution_plan_tips_v1 = []\<rparr>"
    by (simp add: st)
  show "isLoading_v1 (handleSubmit_v1 server1 s1) = False"
    by (simp add: st)
  show "error_v1 (handleSubmit_v1 server1 s1) = errorMessage detail1"
    by (simp add: st)
qed

theorem handleSubmit_failure_page_witness:
  "analysisResult (handleSubmit (\<lambda>body. Rejected JUndefined) (samplePage (js '' SELECT 1 ''))) =
     Some sampleClean \<and>
   error (handleSubmit (\<lambda>body. Rejected JUndefined) (samplePage (js '' SELECT 1 ''))) =
     JString (js ''Failed to analyze query'') \<and>
   pageView (handleSubmit (\<lambda>body. Rejected JUndefined) (samplePage (js '' SELECT 1 ''))) {} =
     Inr [Element ''div'' (js ''error-message'')
            [Text [0x26A0, 0xFE0F, 0x0020], Text (js ''Failed to analyze query'')],
          OptimizationResults sampleClean {}] \<and>
   pageView (handleSubmit (\<lambda>body. Resolved sampleClean) (samplePage (js '' SELECT 1 ''))) {} =
     Inr [OptimizationResults sampleClean {}] \<and>
   js ''Great job!'' \<in> set (texts (OptimizationResults sampleClean {})) \<and>
   analysisResult_v1
     (handleSubmit_v1 (\<lambda>body. Rejected_v1 (JString (js ''Server error'')))
        (samplePage_v1 (js '' SELECT 1 ''))) =
     Some \<lparr>query_v1 = js ''SELECT 1'', suggestions_v1 = [], complexity_score_v1 = 0,
           execution_plan_tips_v1 = []\<rparr> \<and>
   error_v1
     (handleSubmit_v1 (\<lambda>body. Rejected_v1 (JString (js ''Server error'')))
        (samplePage_v1 (js '' SELECT 1 ''))) =
     JString (js ''Server error'')"
proof -
  have h: "trim (query_st (samplePage (js '' SELECT 1 ''))) \<noteq> [] \<and>
      (\<lambda>body. Rejected JUndefined)
        \<lparr>query_req = trim (query_st (samplePage (js '' SELECT 1 ''))),
         database_type_req = databaseType (samplePage (js '' SELECT 1 ''))\<rparr> =
        Rejected JUndefined \<and>
      sampleClean =
        \<lparr>query = trim (query_st (samplePage (js '' SELECT 1 ''))),
         database_type = databaseType (samplePage (js '' SELECT 1 '')), suggestions = [],
         complexity_score = 0, execution_plan_tips = [], syntax_errors = None\<rparr>"
    by (simp add: samplePage_select_1 select_1_not_empty sampleClean_def)
  have h1: "trim (query_st_v1 (samplePage_v1 (js '' SELECT 1 ''))) \<noteq> [] \<and>
      (\<lambda>body. Rejected_v1 (JString (js ''Server error'')))
        \<lparr>query_req_v1 = trim (query_st_v1 (samplePage_v1 (js '' SELECT 1 '')))\<rparr> =
        Rejected_v1 (JString (js ''Server error''))"
    by (simp add: samplePage_v1_select_1 select_1_not_empty)
  have d: "errorMessage JUndefined = JString (js ''Failed to analyze query'')"
    by (simp add: errorMessage_def)
  have d1: "errorMessage (JString (js ''Server error'')) = JString (js ''Server error'')"
    by (simp add: errorMessage_def js_def)
  have a: "(\<lambda>body. Resolved sampleClean)
        \<lparr>query_req = trim (query_st (samplePage (js '' SELECT 1 ''))),
         database_type_req = databaseType (samplePage (js '' SELECT 1 ''))\<rparr> =
        Resolved sampleClean \<and>
      (sampleClean = sampleClean \<or> sampleClean = sampleClean\<lparr>syntax_errors := Some []\<rparr>)"
    by simp
  note T = handleSubmit_failure_page
      [of "samplePage (js '' SELECT 1 '')" "\<lambda>body. Rejected JUndefined" JUndefined
        sampleClean "{}" "samplePage_v1 (js '' SELECT 1 '')"
        "\<lambda>body. Rejected_v1 (JString (js ''Server error''))" "JString (js ''Server error'')"]
  note C = T [THEN conjunct1, THEN mp, OF h]
  note V = T [THEN conjunct2, THEN mp, OF h1]
  note p1 = C [THEN conjunct1]
  note p3 = C [THEN conjunct2, THEN conjunct2, THEN conjunct1, unfolded d]
  note p5 = C [THEN conjunct2, THEN conjunct2, THEN conjunct2, THEN conjunct2, THEN conjunct1,
      THEN spec, THEN mp, OF shown_default]
  note p6 = C [THEN conjunct2, THEN conjunct2, THEN conjunct2, THEN conjunct2, THEN conjunct2,
      THEN conjunct1, THEN spec, THEN spec, THEN mp, OF a]
  note p8 = C [THEN conjunct2, THEN conjunct2, THEN conjunct2, THEN conjunct2, THEN conjunct2,
      THEN conjunct2, THEN conjunct2, THEN conjunct1]
  note v1 = V [THEN conjunct1, unfolded samplePage_v1_select_1]
  note v3 = V [THEN conjunct2, THEN conjunct2, unfolded d1]
  show ?thesis
    by (intro conjI, rule p1, rule p3, rule p5, rule p6, rule p8, rule v1, rule v3)
qed

text \<open>
  After a failed request the page shows the error banner above the results view; after
  an answer with the same fields as the substitute it shows the results view alone.
\<close>

theorem failure_not_rendered_as_clean_counterexample:
  "pageView (handleSubmit (\<lambda>body. Rejected JUndefined) (samplePage (js '' SELECT 1 ''))) {} \<noteq>
   pageView (handleSubmit (\<lambda>body. Resolved sampleClean) (samplePage (js '' SELECT 1 ''))) {}"
proof -
  have ne: "trim (query_st (samplePage (js '' SELECT 1 ''))) \<noteq> []"
    by (simp add: samplePage_select_1 select_1_not_empty)
  have failed: "pageView (handleSubmit (\<lambda>body. Rejected JUndefined)
        (samplePage (js '' SELECT 1 ''))) {} =
      Inr [Element ''div'' (js ''error-message'')
             [Text [0x26A0, 0xFE0F, 0x0020], Text (js ''Failed to analyze query'')],
           OptimizationResults sampleClean {}]"
    by (simp add: pageView_def
        handleSubmit_rejected [of "samplePage (js '' SELECT 1 '')" "\<lambda>body. Rejected JUndefined"
          JUndefined, OF ne refl]
        errorBanner_shown [OF truthy_errorMessage shown_default]
        loadingContainer_def resultsPane_def samplePage_select_1 sampleClean_def)
  have clean: "pageView (handleSubmit (\<lambda>body. Resolved sampleClean)
        (samplePage (js '' SELECT 1 ''))) {} = Inr [OptimizationResults sampleClean {}]"
    by (simp add: pageView_def
        handleSubmit_resolved [of "samplePage (js '' SELECT 1 '')"
          "\<lambda>body. Resolved sampleClean" sampleClean, OF ne refl]
        errorBanner_null loadingContainer_def resultsPane_def)
  show ?thesis
    unfolding failed clean by simp
qed

text \<open>
  The detail of a validation error, a list of objects, is truthy and is stored as the
  error; rendering it throws, and the page shows neither banner nor substitute.
\<close>

lemma detail_422_throws:
  "analysisResult
     (handleSubmit (\<lambda>body. Rejected sampleDetail422) (samplePage (js '' SELECT 1 ''))) =
     Some sampleClean \<and>
   pageView
     (handleSubmit (\<lambda>body. Rejected sampleDetail422) (samplePage (js '' SELECT 1 ''))) {} =
     Inl ObjectsAreNotValidAsAReactChild"
proof -
  have ne: "trim (query_st (samplePage (js '' SELECT 1 ''))) \<noteq> []"
    by (simp add: samplePage_select_1 select_1_not_empty)
  note st = handleSubmit_rejected [of "samplePage (js '' SELECT 1 '')"
      "\<lambda>body. Rejected sampleDetail422" sampleDetail422, OF ne refl]
  have m: "errorMessage sampleDetail422 = sampleDetail422"
    by (simp add: errorMessage_def sampleDetail422_def)
  have b: "errorBanner sampleDetail422 = Inl ObjectsAreNotValidAsAReactChild"
    by (simp add: errorBanner_def sampleDetail422_def)
  show ?thesis
    unfolding st m
    by (simp add: pageView_def b samplePage_select_1 sampleClean_def)
qed

subsection \<open>The results view under syntax errors\<close>

lemma classNames_syntaxErrorItem:
  "classNames (syntaxErrorItem e) = [js ''syntax-error-item'', js ''error-icon'', js ''error-text'']"
  by (simp add: syntaxErrorItem_def)

lemma texts_statItem: "texts (statItem l c v) = [l, v]"
  by (simp add: statItem_def)

lemma blocked_view:
  assumes "shownErrors r = Some es"
  shows "OptimizationResults r ex =
     Element ''div'' (js ''optimization-results'')
       ([resultsHeader r] @ syntaxErrorsSection r @
        [analyzedQuerySection r,
         Element ''div'' (js ''suggestions-section'')
           [Element ''h3'' [] [Text ([0xD83D, 0xDCA1] @ js '' Optimization Suggestions'')],
            Element ''div'' (js ''syntax-error-blocking'')
               [Element ''div'' (js ''blocking-icon'') [Text [0x26A0, 0xFE0F]],
                Element ''h4'' [] [Text (js ''Optimization Analysis Blocked'')],
                Element ''p'' []
                  [Text (js (''Please fix the syntax errors above before optimization analysis can be performed. '' @
                             ''The tool cannot provide reliable optimization suggestions for queries with syntax issues.''))]]]] @
        executionTipsSection r @
        [Element ''div'' (js ''summary-stats'')
            [statItem (js ''Syntax Errors:'') (js ''stat-value error'') (toString (int (length es))),
             statItem (js ''Analysis Status:'') (js ''stat-value error'') (js ''Blocked''),
             statItem (js ''Action Required:'') (js ''stat-value error'') (js ''Fix Syntax'')]])"
  by (simp add: OptimizationResults_def suggestionsSection_def summaryStats_def assms)


lemma card_header:
  "\<forall>c \<in> set (classNames (resultsHeader r)). \<not> startsWith c (js ''suggestion-card'')"
  by (simp add: resultsHeader_def Let_def classNames_optional startsWith_def js_def)

lemma card_item:
  "\<forall>c \<in> set (classNames (syntaxErrorItem e)). \<not> startsWith c (js ''suggestion-card'')"
  by (simp add: syntaxErrorItem_def startsWith_def js_def)

lemma card_errors:
  "\<forall>c \<in> set (concat (map classNames (syntaxErrorsSection r))). \<not> startsWith c (js ''suggestion-card'')"
proof (cases "shownErrors r")
  case None
  then show ?thesis by (simp add: syntaxErrorsSection_def)
next
  case (Some es)
  have "\<forall>c \<in> set (concat (map classNames (map syntaxErrorItem es))). \<not> startsWith c (js ''suggestion-card'')"
    using card_item by simp
  then show ?thesis
    by (simp add: syntaxErrorsSection_def Some ball_Un) (simp add: startsWith_def js_def)
qed

lemma card_tip:
  "\<forall>c \<in> set (classNames (tipItem t)). \<not> startsWith c (js ''suggestion-card'')"
  by (simp add: tipItem_def startsWith_def js_def)

lemma card_tips:
  "\<forall>c \<in> set (concat (map classNames (executionTipsSection r))). \<not> startsWith c (js ''suggestion-card'')"
proof -
  have "\<forall>c \<in> set (concat (map classNames (map tipItem (execution_plan_tips r)))). \<not> startsWith c (js ''suggestion-card'')"
    using card_tip by simp
  then show ?thesis
    by (simp add: executionTipsSection_def ball_Un) (simp add: startsWith_def js_def)
qed

lemma card_query:
  "\<forall>c \<in> set (classNames (analyzedQuerySection r)). \<not> startsWith c (js ''suggestion-card'')"
  by (simp add: analyzedQuerySection_def classNames_optional startsWith_def js_def)

lemma shownErrors_Some:
  "syntax_errors r = Some es \<Longrightarrow> es \<noteq> [] \<Longrightarrow> shownErrors r = Some es"
  by (simp add: shownErrors_def)

text \<open>
  C10. For every result whose \<open>syntax_errors\<close> field is present and not empty, the
  results view holds no suggestion card (no element whose class starts with
  \<^verbatim>\<open>suggestion-card\<close>), it holds the blocking notice and reports the analysis status
  Blocked, and it is the same view whatever the suggestions list and the expanded cards.
\<close>

theorem syntax_errors_block_suggestions:
  assumes "syntax_errors r = Some es" and "es \<noteq> []"
  shows "(\<forall>c \<in> set (classNames (OptimizationResults r ex)).
            \<not> startsWith c (js ''suggestion-card'')) \<and>
         js ''syntax-error-blocking'' \<in> set (classNames (OptimizationResults r ex)) \<and>
         js ''Blocked'' \<in> set (texts (OptimizationResults r ex)) \<and>
         OptimizationResults (r\<lparr>suggestions := sgs\<rparr>) ex' = OptimizationResults r ex"
proof -
  have se: "shownErrors r = Some es"
    using assms by (rule shownErrors_Some)
  have se': "shownErrors (r\<lparr>suggestions := sgs\<rparr>) = Some es"
    using assms by (simp add: shownErrors_def)
  have a: "\<forall>c \<in> set (classNames (OptimizationResults r ex)).
             \<not> startsWith c (js ''suggestion-card'')"
    using card_header [of r] card_errors [of r] card_tips [of r] card_query [of r]
    by (simp add: blocked_view [OF se] classNames_statItem ball_Un)
       (simp add: startsWith_def js_def)
  have b: "js ''syntax-error-blocking'' \<in> set (classNames (OptimizationResults r ex))"
    by (simp add: blocked_view [OF se])
  have c: "js ''Blocked'' \<in> set (texts (OptimizationResults r ex))"
    by (simp add: blocked_view [OF se] texts_statItem)
  have d: "OptimizationResults (r\<lparr>suggestions := sgs\<rparr>) ex' = OptimizationResults r ex"
    by (simp add: blocked_view [OF se] blocked_view [OF se'] resultsHeader_def
        syntaxErrorsSection_def analyzedQuerySection_def executionTipsSection_def
        selectedDatabase_def shownErrors_def)
  from a b c d show ?thesis by blast
qed

theorem syntax_errors_block_suggestions_witness:
  "suggestions sampleBlocked \<noteq> [] \<and>
   \<not> (\<exists>c \<in> set (classNames (OptimizationResults sampleBlocked {0})).
        startsWith c (js ''suggestion-card'')) \<and>
   js ''syntax-error-blocking'' \<in> set (classNames (OptimizationResults sampleBlocked {0})) \<and>
   js ''Blocked'' \<in> set (texts (OptimizationResults sampleBlocked {0})) \<and>
   OptimizationResults (sampleBlocked\<lparr>suggestions := []\<rparr>) {} =
     OptimizationResults sampleBlocked {0}"
proof -
  have e: "syntax_errors sampleBlocked = Some [js ''Invalid SQL syntax'']"
    by (simp add: sampleBlocked_def)
  have n: "[js ''Invalid SQL syntax''] \<noteq> []"
    by simp
  have s: "suggestions sampleBlocked \<noteq> []"
    by (simp add: sampleBlocked_def)
  show ?thesis
    using syntax_errors_block_suggestions [OF e n, of "{0}" "[]" "{}"] s
    by blast
qed

section \<open>Properties of the analysis engine\<close>

lemma walk_occurrences:
  "walk acc ts =
     acc + 3 * int (occurrences is_subquery ts) + 2 * int (occurrences is_union ts) +
     int (occurrences is_case ts) + int (occurrences is_scalar_call ts)"
  by (induction ts arbitrary: acc) (simp_all add: weight_at_def)

lemma foldl_joins: "foldl (\<lambda>acc j. acc + 2) a xs = a + 2 * int (length xs)"
  by (induction xs arbitrary: a) simp_all

lemma clean_no_errors: "syntax_errors_of cleanQuery = []"
  by code_simp

lemma clean_no_findings:
  "run_rules (rule_catalog w) cleanQuery (fragments (emitted (scan cleanQuery))) = []"
  by code_simp

lemma malformed_errors: "tokenize malformedQuery = Inl [''Unrecognized leading keyword'']"
  by code_simp

text \<open>
  C1. In every result of \<open>analyze\<close>, a non-empty list of syntax errors comes with an
  empty list of suggestions. The converse is not required and does not hold: the query
  \<open>cleanQuery\<close> is analyzed by the engine with the standard catalog, under any wording
  and any tip generator, without syntax errors and without suggestions.
\<close>

theorem errors_exclude_suggestions:
  "(\<forall>es. SyntaxErrors (analyze e query_text dialect_tag) = Some es \<and> es \<noteq> [] \<longrightarrow>
      Suggestions (analyze e query_text dialect_tag) = []) \<and>
   SyntaxErrors (analyze (startup w tips) cleanQuery dialect_tag) = None \<and>
   Suggestions (analyze (startup w tips) cleanQuery dialect_tag) = []"
proof -
  have a: "Suggestions (analyze e query_text dialect_tag) = []"
    if "SyntaxErrors (analyze e query_text dialect_tag) = Some es" for es
    using that by (cases "tokenize query_text") (simp_all add: analyze_def)
  have t: "tokenize cleanQuery = Inr (fragments (emitted (scan cleanQuery)))"
    by (simp add: tokenize_def clean_no_errors)
  have b: "SyntaxErrors (analyze (startup w tips) cleanQuery dialect_tag) = None"
    by (simp add: analyze_def t)
  have c: "Suggestions (analyze (startup w tips) cleanQuery dialect_tag) = []"
    by (simp add: analyze_def t startup_def clean_no_findings)
  from a b c show ?thesis by blast
qed

theorem errors_exclude_suggestions_witness:
  "SyntaxErrors (analyze sampleEngine malformedQuery ''mysql'') =
     Some [''Unrecognized leading keyword''] \<and>
   Suggestions (analyze sampleEngine malformedQuery ''mysql'') = [] \<and>
   SyntaxErrors (analyze sampleEngine cleanQuery ''mysql'') = None \<and>
   Suggestions (analyze sampleEngine cleanQuery ''mysql'') = []"
proof -
  have h: "SyntaxErrors (analyze sampleEngine malformedQuery ''mysql'') =
      Some [''Unrecognized leading keyword'']"
    by (simp add: analyze_def malformed_errors)
  show ?thesis
    using errors_exclude_suggestions
      [of sampleEngine malformedQuery "''mysql''" sampleWording "\<lambda>d f. []"] h
    unfolding sampleEngine_def by blast
qed

lemma sample_scan:
  "scan sampleQuery =
     \<lparr>mode = Code, depth = 0, pending = [], emitted = sampleTokens, unbalanced = False,
      skip = False\<rparr>"
  by code_simp

lemma sample_leading: "leading_keyword sampleTokens"
  by code_simp

lemma sample_incomplete: "incomplete_clauses sampleTokens = []"
  by code_simp

lemma sample_joins: "length (joins (fragments sampleTokens)) = 1"
  by code_simp

lemma sample_subqueries: "occurrences is_subquery sampleTokens = 1"
  by code_simp

lemma sample_unions: "occurrences is_union sampleTokens = 1"
  by code_simp

lemma sample_cases: "occurrences is_case sampleTokens = 1"
  by code_simp

lemma sample_calls: "occurrences is_scalar_call sampleTokens = 1"
  by code_simp

lemma sample_group_by: "group_by (fragments sampleTokens) \<noteq> None"
  by code_simp

lemma sample_order_by: "order_by (fragments sampleTokens) \<noteq> None"
  by code_simp

lemma sample_having: "having (fragments sampleTokens) \<noteq> None"
  by code_simp

text \<open>
  C3. For every syntactically valid input, one that the tokenizer turns into fragments
  \<open>f\<close>, the complexity score is the sum of 2 per JOIN entry, 3 per subquery, 2 per UNION,
  1 per CASE expression, 1 if GROUP BY is present, 1 if ORDER BY is present, 2 if HAVING
  is present and 1 per scalar function invocation, clamped to \<open>[0, 100]\<close>.
\<close>

theorem score_weighted_sum:
  assumes "tokenize query_text = Inr f"
  shows "ComplexityScore (analyze e query_text dialect_tag) =
     max 0 (min 100
       (2 * int (length (joins f)) +
        3 * int (occurrences is_subquery (emitted (scan query_text))) +
        2 * int (occurrences is_union (emitted (scan query_text))) +
        int (occurrences is_case (emitted (scan query_text))) +
        (if group_by f \<noteq> None then 1 else 0) +
        (if order_by f \<noteq> None then 1 else 0) +
        (if having f \<noteq> None then 2 else 0) +
        int (occurrences is_scalar_call (emitted (scan query_text)))))"
proof -
  have "ComplexityScore (analyze e query_text dialect_tag) = score f query_text"
    using assms by (simp add: analyze_def)
  also have "\<dots> = clamp
       (2 * int (length (joins f)) +
        3 * int (occurrences is_subquery (emitted (scan query_text))) +
        2 * int (occurrences is_union (emitted (scan query_text))) +
        int (occurrences is_case (emitted (scan query_text))) +
        (if group_by f \<noteq> None then 1 else 0) +
        (if order_by f \<noteq> None then 1 else 0) +
        (if having f \<noteq> None then 2 else 0) +
        int (occurrences is_scalar_call (emitted (scan query_text))))"
    unfolding score_def walk_occurrences foldl_joins
    by (rule arg_cong [where f = clamp]) simp
  finally show ?thesis by (simp add: clamp_def)
qed

theorem score_weighted_sum_witness:
  "tokenize sampleQuery = Inr (fragments sampleTokens) \<and>
   ComplexityScore (analyze sampleEngine sampleQuery ''postgresql'') = 13"
proof -
  have e: "emitted (scan sampleQuery) = sampleTokens"
    by (simp add: sample_scan)
  have t: "tokenize sampleQuery = Inr (fragments sampleTokens)"
    by (simp add: tokenize_def syntax_errors_of_def sample_scan sample_leading
        sample_incomplete)
  show ?thesis
    using score_weighted_sum [OF t, of sampleEngine "''postgresql''"] t
    by (simp add: e sample_joins sample_subqueries sample_unions sample_cases sample_calls
        sample_group_by sample_order_by sample_having)
qed

text \<open>
  C4. For every input, malformed or not, the complexity score of the result of
  \<open>analyze\<close> is an integer between 0 and 100.
\<close>

theorem score_bounds:
  "0 \<le> ComplexityScore (analyze e query_text dialect_tag) \<and>
   ComplexityScore (analyze e query_text dialect_tag) \<le> 100"
  by (cases "tokenize query_text") (simp_all add: analyze_def score_def clamp_def)

end
